theory Spec2Isabelle
  imports Main
begin

section \<open>Data model\<close>

text \<open>
  Shallow embedding of the command queue and the presence tracker of the backend:
  \<^verbatim>\<open>src/models/Command.js\<close>, \<^verbatim>\<open>src/models/Device.js\<close>, the command controller
  (\<^verbatim>\<open>src/unnamed/part_002\<close>), the heartbeat handler of the device controller
  (\<^verbatim>\<open>src/unnamed/part_003\<close>) and the offline-device cron job (\<^verbatim>\<open>src/unnamed/part_000\<close>).

  Dates are milliseconds since the epoch (\<open>int\<close>), as \<^verbatim>\<open>Date.now()\<close> gives them; every
  handler takes the current time as the argument \<open>now\<close>. Object ids are natural numbers
  drawn from a counter of the store. A collection is the list of its documents in
  insertion order. Socket emits and log lines do not touch the database and are left out.
\<close>

subsection \<open>Command (src/models/Command.js)\<close>

datatype command_type =
  Lock_device | Unlock_device | Show_message | Play_sound | Vibrate | Take_screenshot
| Get_location | Enable_app | Disable_app | Set_time_limit | Update_settings | Factory_reset

datatype priority = Low | Normal | High | Critical

datatype status = Pending | Sent | Delivered | Executing | Completed | Failed | Expired

text \<open>The enum lists of the schema, in the order the schema gives them.\<close>

definition status_enum :: "status list" where
  "status_enum = [Pending, Sent, Delivered, Executing, Completed, Failed, Expired]"

definition priority_enum :: "priority list" where
  "priority_enum = [Low, Normal, High, Critical]"

text \<open>The strings the database stores: both fields have schema type \<^verbatim>\<open>String\<close>.\<close>

fun status_str :: "status \<Rightarrow> string" where
  "status_str Pending = ''pending''"
| "status_str Sent = ''sent''"
| "status_str Delivered = ''delivered''"
| "status_str Executing = ''executing''"
| "status_str Completed = ''completed''"
| "status_str Failed = ''failed''"
| "status_str Expired = ''expired''"

fun priority_str :: "priority \<Rightarrow> string" where
  "priority_str Low = ''low''"
| "priority_str Normal = ''normal''"
| "priority_str High = ''high''"
| "priority_str Critical = ''critical''"

record ExecutionResult =
  er_success :: bool
  er_message :: string
  er_data :: "string option"
  er_timestamp :: int

record Command =
  cid :: nat
  deviceId :: string
  parentId :: nat
  ctype :: command_type
  command :: "(string \<times> string) list"
  priority :: priority
  status :: status
  executionResult :: "ExecutionResult option"
  expiresAt :: "int option"
  retryCount :: nat
  nextRetryAt :: "int option"
  deliveredAt :: "int option"
  executedAt :: "int option"
  failureReason :: "string option"
  createdAt :: int
  updatedAt :: int

subsection \<open>Device (src/models/Device.js) and Alert (src/unnamed/part\_007)\<close>

text \<open>
  The device document with every path on which the schema puts a validator, as the
  database can hold it: an update without \<^verbatim>\<open>runValidators\<close> stores any string in
  \<open>networkType\<close> and \<open>status\<close>, any number in the bounded fields and \<^verbatim>\<open>null\<close> in the
  required references. The paths left out (androidVersion, appVersion, deviceModel,
  storageInfo, location, usageStats and the boolean settings) have no validator.
\<close>

record Device =
  d_id :: nat
  d_deviceId :: string
  d_deviceName :: string
  d_parentId :: "nat option"
  d_childId :: "nat option"
  d_isOnline :: bool
  d_lastHeartbeat :: "int option"
  d_batteryLevel :: int
  d_isCharging :: bool
  d_networkType :: string
  d_signalStrength :: int
  d_isBlocked :: bool
  d_heartbeatInterval :: int
  d_maxBatteryAlert :: int
  d_status :: string
  d_updatedAt :: int

datatype alert_type = Device_offline | Low_battery

datatype severity = Sev_low | Sev_medium | Sev_high | Sev_critical

record Alert =
  a_id :: nat
  a_deviceId :: string
  a_parentId :: nat
  a_type :: alert_type
  a_message :: string
  a_severity :: severity
  a_createdAt :: int

subsection \<open>The database\<close>

record Store =
  commands :: "Command list"
  devices :: "Device list"
  alerts :: "Alert list"
  nextId :: nat

datatype error = ValidationError

text \<open>HTTP outcome of a handler: 200/201 with a body, 404, or the 500 of its catch block.\<close>

datatype 'a response = Ok 'a | NotFound | ServerError

section \<open>Query and update primitives\<close>

text \<open>\<^verbatim>\<open>Model.findOne(filter)\<close>: the first document that matches.\<close>

fun findOne :: "('a \<Rightarrow> bool) \<Rightarrow> 'a list \<Rightarrow> 'a option" where
  "findOne p [] = None"
| "findOne p (x # xs) = (if p x then Some x else findOne p xs)"

text \<open>\<^verbatim>\<open>findOneAndUpdate\<close>, \<^verbatim>\<open>findByIdAndUpdate\<close> and \<^verbatim>\<open>doc.save()\<close> write one document:
  the first that matches.\<close>

fun updateOne :: "('a \<Rightarrow> bool) \<Rightarrow> ('a \<Rightarrow> 'a) \<Rightarrow> 'a list \<Rightarrow> 'a list" where
  "updateOne p f [] = []"
| "updateOne p f (x # xs) = (if p x then f x # xs else x # updateOne p f xs)"

text \<open>\<^verbatim>\<open>Model.updateMany(filter, update)\<close> writes every document that matches.\<close>

definition updateMany :: "('a \<Rightarrow> bool) \<Rightarrow> ('a \<Rightarrow> 'a) \<Rightarrow> 'a list \<Rightarrow> 'a list" where
  "updateMany p f xs = map (\<lambda>x. if p x then f x else x) xs"

text \<open>
  MongoDB compares strings byte by byte (simple binary collation), a proper prefix
  before the longer string.
\<close>

fun string_less :: "string \<Rightarrow> string \<Rightarrow> bool" where
  "string_less [] [] = False"
| "string_less [] (y # ys) = True"
| "string_less (x # xs) [] = False"
| "string_less (x # xs) (y # ys) =
     ((of_char x :: nat) < of_char y \<or> (x = y \<and> string_less xs ys))"

text \<open>
  \<^verbatim>\<open>.sort({ priority: -1, createdAt: 1 })\<close>: \<open>sorts_before a b\<close> holds when the sort key
  puts \<open>a\<close> strictly before \<open>b\<close>: the stored priority string descending, then \<open>createdAt\<close>
  ascending. Documents with equal keys keep their collection order.
\<close>

definition sorts_before :: "Command \<Rightarrow> Command \<Rightarrow> bool" where
  "sorts_before a b =
     (string_less (priority_str (priority b)) (priority_str (priority a))
      \<or> (priority_str (priority a) = priority_str (priority b) \<and> createdAt a < createdAt b))"

fun insert_sorted :: "Command \<Rightarrow> Command list \<Rightarrow> Command list" where
  "insert_sorted c [] = [c]"
| "insert_sorted c (x # xs) =
     (if sorts_before x c then x # insert_sorted c xs else c # x # xs)"

definition sort_commands :: "Command list \<Rightarrow> Command list" where
  "sort_commands cs = foldr insert_sorted cs []"

section \<open>Command model methods\<close>

text \<open>The pre-save hook: a command without \<open>expiresAt\<close> gets 168 hours when its priority
  is critical and 24 hours otherwise.\<close>

definition pre_save :: "int \<Rightarrow> Command \<Rightarrow> Command" where
  "pre_save now c =
     (case expiresAt c of
        None \<Rightarrow>
          (let expirationHours = (if priority c = Critical then 168 else 24 :: int)
           in c\<lparr>expiresAt := Some (now + expirationHours * 60 * 60 * 1000)\<rparr>)
      | Some _ \<Rightarrow> c)"

text \<open>
  \<^verbatim>\<open>this.save()\<close> of a loaded command: the hook runs, \<open>updatedAt\<close> is stamped (the schema
  has \<^verbatim>\<open>timestamps: true\<close>) and the document with this id is written.
\<close>

definition persist :: "int \<Rightarrow> Command \<Rightarrow> Store \<Rightarrow> Store" where
  "persist now c s =
     s\<lparr>commands :=
         updateOne (\<lambda>x. cid x = cid c) (\<lambda>_. (pre_save now c)\<lparr>updatedAt := now\<rparr>) (commands s)\<rparr>"

text \<open>The schema bounds \<open>retryCount\<close> by \<^verbatim>\<open>max: 5\<close>; \<^verbatim>\<open>save()\<close> validates the paths that
  were modified and rejects with a ValidationError, writing nothing.\<close>

definition retryCount_valid :: "Command \<Rightarrow> bool" where
  "retryCount_valid c = (retryCount c \<le> 5)"

definition markAsCompleted :: "ExecutionResult \<Rightarrow> int \<Rightarrow> Command \<Rightarrow> Store \<Rightarrow> error + Store" where
  "markAsCompleted result now c s =
     Inr (persist now
            (c\<lparr>status := Completed, executedAt := Some now, executionResult := Some result\<rparr>) s)"

definition markAsFailed_doc :: "string \<Rightarrow> int \<Rightarrow> Command \<Rightarrow> Command" where
  "markAsFailed_doc reason now c =
     (let c1 = c\<lparr>retryCount := retryCount c + 1, failureReason := Some reason\<rparr>
      in if retryCount c1 \<ge> 5 then c1\<lparr>status := Failed\<rparr>
         else (let backoff = 2 ^ retryCount c1 * 1000
               in c1\<lparr>status := Pending, nextRetryAt := Some (now + backoff)\<rparr>))"

definition markAsFailed :: "string \<Rightarrow> int \<Rightarrow> Command \<Rightarrow> Store \<Rightarrow> error + Store" where
  "markAsFailed reason now c s =
     (let c' = markAsFailed_doc reason now c
      in if retryCount_valid c' then Inr (persist now c' s) else Inl ValidationError)"

text \<open>
  \<^verbatim>\<open>Command.create({deviceId, parentId, type, command, priority})\<close>: the schema defaults
  (status pending, retryCount 0), validation of the required \<open>deviceId\<close> (an empty string
  fails \<^verbatim>\<open>required\<close>), the pre-save hook, a fresh id and both timestamps.
\<close>

definition new_command ::
  "nat \<Rightarrow> string \<Rightarrow> nat \<Rightarrow> command_type \<Rightarrow> (string \<times> string) list \<Rightarrow> priority \<Rightarrow> int \<Rightarrow> Command"
where
  "new_command i dev par ty cmd prio now =
     \<lparr>cid = i, deviceId = dev, parentId = par, ctype = ty, command = cmd, priority = prio,
      status = Pending, executionResult = None, expiresAt = None, retryCount = 0,
      nextRetryAt = None, deliveredAt = None, executedAt = None, failureReason = None,
      createdAt = now, updatedAt = now\<rparr>"

definition Command_create ::
  "string \<Rightarrow> nat \<Rightarrow> command_type \<Rightarrow> (string \<times> string) list \<Rightarrow> priority \<Rightarrow> int \<Rightarrow> Store
   \<Rightarrow> error + (Command \<times> Store)"
where
  "Command_create dev par ty cmd prio now s =
     (if dev = [] then Inl ValidationError
      else (let c = pre_save now (new_command (nextId s) dev par ty cmd prio now)
            in Inr (c, s\<lparr>commands := commands s @ [c], nextId := nextId s + 1\<rparr>)))"

section \<open>Command controller (src/unnamed/part\_002)\<close>

record CommandSummary =
  cs_id :: nat
  cs_type :: command_type
  cs_command :: "(string \<times> string) list"
  cs_priority :: priority
  cs_createdAt :: int

definition summary :: "Command \<Rightarrow> CommandSummary" where
  "summary c = \<lparr>cs_id = cid c, cs_type = ctype c, cs_command = command c,
                cs_priority = priority c, cs_createdAt = createdAt c\<rparr>"

text \<open>The filter of the pending query:
  \<^verbatim>\<open>{ deviceId, status: { $in: ['pending', 'sent'] }, expiresAt: { $gt: new Date() } }\<close>.
  A missing \<open>expiresAt\<close> does not match \<^verbatim>\<open>$gt\<close>.\<close>

definition pending_filter :: "string \<Rightarrow> int \<Rightarrow> Command \<Rightarrow> bool" where
  "pending_filter dev now c =
     (deviceId c = dev \<and> (status c = Pending \<or> status c = Sent)
      \<and> (case expiresAt c of None \<Rightarrow> False | Some e \<Rightarrow> now < e))"

text \<open>The documents \<^verbatim>\<open>getPendingCommands\<close> finds, in the order of its sort.\<close>

definition pending_found :: "string \<Rightarrow> int \<Rightarrow> Store \<Rightarrow> Command list" where
  "pending_found dev now s = sort_commands (filter (pending_filter dev now) (commands s))"

definition getPendingCommands ::
  "string \<Rightarrow> int \<Rightarrow> Store \<Rightarrow> CommandSummary list response \<times> Store"
where
  "getPendingCommands dev now s =
     (let cmds = pending_found dev now s;
          s' = (if length cmds > 0
                then (let commandIds = map cid cmds
                      in s\<lparr>commands :=
                            updateMany (\<lambda>c. cid c \<in> set commandIds)
                              (\<lambda>c. c\<lparr>status := Sent, updatedAt := now\<rparr>) (commands s)\<rparr>)
                else s)
      in (Ok (map summary cmds), s'))"

definition acknowledgeCommand :: "nat \<Rightarrow> int \<Rightarrow> Store \<Rightarrow> unit response \<times> Store" where
  "acknowledgeCommand commandId now s =
     (case findOne (\<lambda>c. cid c = commandId) (commands s) of
        None \<Rightarrow> (NotFound, s)
      | Some _ \<Rightarrow>
          (Ok (),
           s\<lparr>commands :=
               updateOne (\<lambda>c. cid c = commandId)
                 (\<lambda>c. c\<lparr>status := Delivered, updatedAt := now\<rparr>) (commands s)\<rparr>))"

text \<open>\<^verbatim>\<open>message || dflt\<close>: a missing or empty message gives the default.\<close>

definition or_default :: "string option \<Rightarrow> string \<Rightarrow> string" where
  "or_default message dflt =
     (case message of None \<Rightarrow> dflt | Some m \<Rightarrow> if m = [] then dflt else m)"

definition reportCommandResult ::
  "nat \<Rightarrow> bool \<Rightarrow> string option \<Rightarrow> string option \<Rightarrow> int \<Rightarrow> Store \<Rightarrow> unit response \<times> Store"
where
  "reportCommandResult commandId success message data now s =
     (case findOne (\<lambda>c. cid c = commandId) (commands s) of
        None \<Rightarrow> (NotFound, s)
      | Some c \<Rightarrow>
          (case (if success
                 then markAsCompleted
                        \<lparr>er_success = True,
                         er_message = or_default message ''Command executed successfully'',
                         er_data = data, er_timestamp = now\<rparr> now c s
                 else markAsFailed (or_default message ''Command execution failed'') now c s)
           of Inl _ \<Rightarrow> (ServerError, s)
            | Inr s' \<Rightarrow> (Ok (), s')))"

definition sendCommand ::
  "nat \<Rightarrow> string \<Rightarrow> command_type \<Rightarrow> (string \<times> string) list \<Rightarrow> priority option \<Rightarrow> int \<Rightarrow> Store
   \<Rightarrow> Command response \<times> Store"
where
  "sendCommand user dev ty data prio now s =
     (case findOne (\<lambda>d. d_deviceId d = dev \<and> d_parentId d = Some user
                          \<and> d_status d = ''active'')
             (devices s) of
        None \<Rightarrow> (NotFound, s)
      | Some _ \<Rightarrow>
          (case Command_create dev user ty data
                  (case prio of None \<Rightarrow> Normal | Some p \<Rightarrow> p) now s of
             Inl _ \<Rightarrow> (ServerError, s)
           | Inr (c, s') \<Rightarrow> (Ok c, s')))"

definition cancelCommand :: "nat \<Rightarrow> nat \<Rightarrow> int \<Rightarrow> Store \<Rightarrow> unit response \<times> Store" where
  "cancelCommand user commandId now s =
     (let flt = (\<lambda>c. cid c = commandId \<and> parentId c = user
                     \<and> (status c = Pending \<or> status c = Sent))
      in case findOne flt (commands s) of
           None \<Rightarrow> (NotFound, s)
         | Some _ \<Rightarrow>
             (Ok (),
              s\<lparr>commands :=
                  updateOne flt (\<lambda>c. c\<lparr>status := Expired, updatedAt := now\<rparr>) (commands s)\<rparr>))"

definition retryCommand :: "nat \<Rightarrow> nat \<Rightarrow> int \<Rightarrow> Store \<Rightarrow> Command response \<times> Store" where
  "retryCommand user commandId now s =
     (case findOne (\<lambda>c. cid c = commandId \<and> parentId c = user \<and> status c = Failed)
             (commands s) of
        None \<Rightarrow> (NotFound, s)
      | Some c \<Rightarrow>
          (case Command_create (deviceId c) (parentId c) (ctype c) (command c) (priority c)
                  now s of
             Inl _ \<Rightarrow> (ServerError, s)
           | Inr (newCommand, s') \<Rightarrow> (Ok newCommand, s')))"

section \<open>Device documents (src/models/Device.js)\<close>

text \<open>The validators of the device schema: \<open>deviceId\<close>, \<open>parentId\<close> and \<open>childId\<close> are
  required (an empty string fails \<^verbatim>\<open>required\<close>), \<open>deviceName\<close> has \<^verbatim>\<open>maxlength: 100\<close>,
  \<open>batteryLevel\<close> lies in 0..100, \<open>signalStrength\<close> in -1..100, \<open>settings.heartbeatInterval\<close>
  in 60..3600, \<open>settings.maxBatteryAlert\<close> in 5..50, and \<open>networkType\<close> and \<open>status\<close> are
  enums.\<close>

definition device_valid :: "Device \<Rightarrow> bool" where
  "device_valid d =
     (d_deviceId d \<noteq> [] \<and> length (d_deviceName d) \<le> 100
      \<and> d_parentId d \<noteq> None \<and> d_childId d \<noteq> None
      \<and> 0 \<le> d_batteryLevel d \<and> d_batteryLevel d \<le> 100
      \<and> d_networkType d \<in> set [''wifi'', ''cellular'', ''unknown'']
      \<and> - 1 \<le> d_signalStrength d \<and> d_signalStrength d \<le> 100
      \<and> 60 \<le> d_heartbeatInterval d \<and> d_heartbeatInterval d \<le> 3600
      \<and> 5 \<le> d_maxBatteryAlert d \<and> d_maxBatteryAlert d \<le> 50
      \<and> d_status d \<in> set [''active'', ''suspended'', ''deleted''])"

text \<open>
  \<^verbatim>\<open>device.save()\<close> of a loaded device after the assignments \<open>assign\<close>: every path of
  the document is validated, the loaded ones as well as the assigned ones, and a
  document that fails is rejected with nothing written. A save that modified no path
  writes nothing; otherwise the assigned paths are written and \<open>updatedAt\<close> is stamped.
\<close>

definition Device_save :: "int \<Rightarrow> (Device \<Rightarrow> Device) \<Rightarrow> Device \<Rightarrow> Store \<Rightarrow> error + Store" where
  "Device_save now assign device s =
     (if \<not> device_valid (assign device) then Inl ValidationError
      else if assign device = device then Inr s
      else Inr (s\<lparr>devices :=
                   updateOne (\<lambda>d. d_id d = d_id device)
                     (\<lambda>d. (assign d)\<lparr>d_updatedAt := now\<rparr>) (devices s)\<rparr>))"

section \<open>Alerts and the offline-device job (src/unnamed/part\_000)\<close>

text \<open>\<^verbatim>\<open>Alert.create\<close>: the schema requires \<open>deviceId\<close>, \<open>parentId\<close> and \<open>message\<close> and
  bounds the message by \<^verbatim>\<open>maxlength: 500\<close>; a document that fails validation rejects
  the create.\<close>

definition Alert_create ::
  "string \<Rightarrow> nat option \<Rightarrow> alert_type \<Rightarrow> string \<Rightarrow> severity \<Rightarrow> int \<Rightarrow> Store \<Rightarrow> error + Store"
where
  "Alert_create dev par ty msg sev now s =
     (case par of
        None \<Rightarrow> Inl ValidationError
      | Some p \<Rightarrow>
          (if dev = [] \<or> msg = [] \<or> length msg > 500 then Inl ValidationError
           else Inr (s\<lparr>alerts := alerts s @
                        [\<lparr>a_id = nextId s, a_deviceId = dev, a_parentId = p, a_type = ty,
                          a_message = msg, a_severity = sev, a_createdAt = now\<rparr>],
                      nextId := nextId s + 1\<rparr>)))"

definition offlineThreshold :: int where
  "offlineThreshold = 15 * 60 * 1000"

text \<open>\<^verbatim>\<open>{ isOnline: true, lastHeartbeat: { $lt: cutoffTime } }\<close>; a device that never sent a
  heartbeat has no \<open>lastHeartbeat\<close> and does not match.\<close>

definition offline_filter :: "int \<Rightarrow> Device \<Rightarrow> bool" where
  "offline_filter cutoffTime d =
     (d_isOnline d \<and> (case d_lastHeartbeat d of None \<Rightarrow> False | Some h \<Rightarrow> h < cutoffTime))"

definition offline_message :: "Device \<Rightarrow> string" where
  "offline_message device =
     ''Device '' @ d_deviceName device @ '' has been offline for more than 15 minutes''"

text \<open>The body of the \<^verbatim>\<open>for (const device of devices)\<close> loop:
  \<^verbatim>\<open>device.isOnline = false; await device.save(); await Alert.create(...)\<close>. The whole
  loop sits in one \<^verbatim>\<open>try\<close>: a rejected save or create throws into the job's catch block,
  which logs and ends the tick; what was written before stays written, and the devices
  that follow are not looked at.\<close>

fun offline_loop :: "int \<Rightarrow> Device list \<Rightarrow> Store \<Rightarrow> Store" where
  "offline_loop now [] s = s"
| "offline_loop now (device # rest) s =
     (case Device_save now (\<lambda>d. d\<lparr>d_isOnline := False\<rparr>) device s of
        Inl _ \<Rightarrow> s
      | Inr s1 \<Rightarrow>
          (case Alert_create (d_deviceId device) (d_parentId device) Device_offline
                  (offline_message device) Sev_medium now s1 of
             Inl _ \<Rightarrow> s1
           | Inr s2 \<Rightarrow> offline_loop now rest s2))"

definition detectOfflineDevices :: "int \<Rightarrow> Store \<Rightarrow> Store" where
  "detectOfflineDevices now s =
     (let cutoffTime = now - offlineThreshold
      in offline_loop now (filter (offline_filter cutoffTime) (devices s)) s)"

section \<open>Device controller (src/unnamed/part\_003)\<close>

text \<open>\<^verbatim>\<open>device.updateHeartbeat(batteryLevel, isCharging)\<close>: four assignments and a save.\<close>

definition updateHeartbeat :: "int \<Rightarrow> bool \<Rightarrow> int \<Rightarrow> Device \<Rightarrow> Store \<Rightarrow> error + Store" where
  "updateHeartbeat batteryLevel isCharging now device s =
     Device_save now
       (\<lambda>d. d\<lparr>d_lastHeartbeat := Some now, d_isOnline := True,
               d_batteryLevel := batteryLevel, d_isCharging := isCharging\<rparr>)
       device s"

text \<open>
  The remaining keys of the heartbeat body, with values of the path's type. They are
  written by \<^verbatim>\<open>findByIdAndUpdate\<close> without validation; the \<^verbatim>\<open>trim\<close> setter of \<open>deviceName\<close>
  runs on updates too. \<open>F_settings\<close> is a \<open>settings\<close> object that carries both numeric
  settings; it replaces the stored one. \<open>F_other\<close> is a key that is no path of the schema
  (strict mode drops it) or one of the paths without a validator that \<open>Device\<close> leaves out
  here.
\<close>

datatype other_field =
  F_deviceName string | F_parentId "nat option" | F_childId "nat option" | F_isOnline bool
| F_networkType string | F_signalStrength int | F_isBlocked bool
| F_settings int int | F_status string | F_other string

definition is_space :: "char \<Rightarrow> bool" where
  "is_space c = (c \<in> set [CHR 0x09, CHR 0x0A, CHR 0x0B, CHR 0x0C, CHR 0x0D, CHR '' ''])"

definition trim :: "string \<Rightarrow> string" where
  "trim str = rev (dropWhile is_space (rev (dropWhile is_space str)))"

fun apply_field :: "Device \<Rightarrow> other_field \<Rightarrow> Device" where
  "apply_field d (F_deviceName n) = d\<lparr>d_deviceName := trim n\<rparr>"
| "apply_field d (F_parentId p) = d\<lparr>d_parentId := p\<rparr>"
| "apply_field d (F_childId p) = d\<lparr>d_childId := p\<rparr>"
| "apply_field d (F_isOnline b) = d\<lparr>d_isOnline := b\<rparr>"
| "apply_field d (F_networkType n) = d\<lparr>d_networkType := n\<rparr>"
| "apply_field d (F_signalStrength n) = d\<lparr>d_signalStrength := n\<rparr>"
| "apply_field d (F_isBlocked b) = d\<lparr>d_isBlocked := b\<rparr>"
| "apply_field d (F_settings heartbeatInterval maxBatteryAlert) =
     d\<lparr>d_heartbeatInterval := heartbeatInterval, d_maxBatteryAlert := maxBatteryAlert\<rparr>"
| "apply_field d (F_status st) = d\<lparr>d_status := st\<rparr>"
| "apply_field d (F_other k) = d"

fun digits :: "nat \<Rightarrow> string" where
  "digits n = (if n < 10 then [char_of (48 + n)] else digits (n div 10) @ [char_of (48 + n mod 10)])"

declare digits.simps [simp del]

definition string_of_int :: "int \<Rightarrow> string" where
  "string_of_int i = (if i < 0 then ''-'' @ digits (nat (- i)) else digits (nat i))"

record HeartbeatSummary =
  hs_id :: nat
  hs_type :: command_type
  hs_command :: "(string \<times> string) list"
  hs_priority :: priority

record HeartbeatReply =
  requiresAction :: bool
  pendingCommands :: "HeartbeatSummary list"

definition heartbeat_summary :: "Command \<Rightarrow> HeartbeatSummary" where
  "heartbeat_summary c =
     \<lparr>hs_id = cid c, hs_type = ctype c, hs_command = command c, hs_priority = priority c\<rparr>"

definition receiveHeartbeat ::
  "string \<Rightarrow> int \<Rightarrow> bool \<Rightarrow> other_field list \<Rightarrow> int \<Rightarrow> Store \<Rightarrow> HeartbeatReply response \<times> Store"
where
  "receiveHeartbeat dev batteryLevel isCharging otherData now s =
     (case findOne (\<lambda>d. d_deviceId d = dev) (devices s) of
        None \<Rightarrow> (NotFound, s)
      | Some device \<Rightarrow>
          (case updateHeartbeat batteryLevel isCharging now device s of
             Inl _ \<Rightarrow> (ServerError, s)
           | Inr s1 \<Rightarrow>
               (let s2 = (if length otherData > 0
                          then s1\<lparr>devices :=
                                 updateOne (\<lambda>d. d_id d = d_id device)
                                   (\<lambda>d. (foldl apply_field d otherData)
                                          \<lparr>d_lastHeartbeat := Some now, d_updatedAt := now\<rparr>)
                                   (devices s1)\<rparr>
                          else s1)
                in case (if batteryLevel \<le> d_maxBatteryAlert device \<and> \<not> isCharging
                         then Alert_create dev (d_parentId device) Low_battery
                                (''Low battery alert: '' @ string_of_int batteryLevel
                                   @ ''% remaining'')
                                (if batteryLevel \<le> 10 then Sev_critical else Sev_medium) now s2
                         else Inr s2) of
                     Inl _ \<Rightarrow> (ServerError, s2)
                   | Inr s3 \<Rightarrow>
                       (let found = filter (pending_filter dev now) (commands s3)
                        in (Ok \<lparr>requiresAction = (length found > 0),
                                pendingCommands = map heartbeat_summary found\<rparr>, s3)))))"

text \<open>\<^verbatim>\<open>toggleDeviceBlock\<close> writes \<open>isBlocked\<close> and queues a lock or unlock command of
  priority high.\<close>

definition toggleDeviceBlock :: "nat \<Rightarrow> string \<Rightarrow> bool \<Rightarrow> int \<Rightarrow> Store \<Rightarrow> unit response \<times> Store" where
  "toggleDeviceBlock user dev blocked now s =
     (let flt = (\<lambda>d. d_deviceId d = dev \<and> d_parentId d = Some user)
      in case findOne flt (devices s) of
           None \<Rightarrow> (NotFound, s)
         | Some device \<Rightarrow>
             (let s1 = s\<lparr>devices :=
                           updateOne flt (\<lambda>d. d\<lparr>d_isBlocked := blocked, d_updatedAt := now\<rparr>)
                             (devices s)\<rparr>
              in case Command_create (d_deviceId device) user
                        (if blocked then Lock_device else Unlock_device)
                        [(''reason'', ''Parent remote control'')] High now s1 of
                   Inl _ \<Rightarrow> (ServerError, s1)
                 | Inr (_, s2) \<Rightarrow> (Ok (), s2)))"

text \<open>\<^verbatim>\<open>updateDeviceSettings\<close> replaces the settings by the request body, validated
  (\<^verbatim>\<open>runValidators\<close>: \<open>heartbeatInterval\<close> within 60 and 3600, \<open>maxBatteryAlert\<close> within 5
  and 50; a setting the body lacks reads as the schema default afterwards), and queues an
  \<open>update_settings\<close> command of priority high that carries the body.\<close>

definition updateDeviceSettings ::
  "nat \<Rightarrow> string \<Rightarrow> int option \<Rightarrow> int option \<Rightarrow> (string \<times> string) list \<Rightarrow> int \<Rightarrow> Store
   \<Rightarrow> unit response \<times> Store"
where
  "updateDeviceSettings user dev heartbeatInterval maxBatteryAlert body now s =
     (let flt = (\<lambda>d. d_deviceId d = dev \<and> d_parentId d = Some user \<and> d_status d = ''active'')
      in if (case heartbeatInterval of None \<Rightarrow> False | Some v \<Rightarrow> v < 60 \<or> v > 3600)
            \<or> (case maxBatteryAlert of None \<Rightarrow> False | Some v \<Rightarrow> v < 5 \<or> v > 50)
         then (ServerError, s)
         else case findOne flt (devices s) of
           None \<Rightarrow> (NotFound, s)
         | Some device \<Rightarrow>
             (let s1 = s\<lparr>devices :=
                           updateOne flt
                             (\<lambda>d. d\<lparr>d_heartbeatInterval :=
                                      (case heartbeatInterval of None \<Rightarrow> 300 | Some v \<Rightarrow> v),
                                    d_maxBatteryAlert :=
                                      (case maxBatteryAlert of None \<Rightarrow> 20 | Some v \<Rightarrow> v),
                                    d_updatedAt := now\<rparr>)
                             (devices s)\<rparr>
              in case Command_create (d_deviceId device) user Update_settings body High now s1 of
                   Inl _ \<Rightarrow> (ServerError, s1)
                 | Inr (_, s2) \<Rightarrow> (Ok (), s2)))"

section \<open>Runs of the system\<close>

text \<open>
  One step is a handler call, a tick of the offline job, or a pass of the database's TTL
  monitor: the schema puts a TTL index with \<^verbatim>\<open>expireAfterSeconds: 0\<close> on \<open>expiresAt\<close>, so
  the database deletes a command once its \<open>expiresAt\<close> has passed.
\<close>

datatype request =
  GetPending string
| Acknowledge nat
| ReportResult nat bool "string option" "string option"
| SendCommand nat string command_type "(string \<times> string) list" "priority option"
| Cancel nat nat
| Retry nat nat
| Heartbeat string int bool "other_field list"
| ToggleBlock nat string bool
| UpdateSettings nat string "int option" "int option" "(string \<times> string) list"
| OfflineJob
| TtlMonitor

definition ttl_monitor :: "int \<Rightarrow> Store \<Rightarrow> Store" where
  "ttl_monitor now s =
     s\<lparr>commands :=
         filter (\<lambda>c. case expiresAt c of None \<Rightarrow> True | Some e \<Rightarrow> now < e) (commands s)\<rparr>"

fun handle :: "request \<Rightarrow> int \<Rightarrow> Store \<Rightarrow> Store" where
  "handle (GetPending dev) now s = snd (getPendingCommands dev now s)"
| "handle (Acknowledge i) now s = snd (acknowledgeCommand i now s)"
| "handle (ReportResult i success message data) now s =
     snd (reportCommandResult i success message data now s)"
| "handle (SendCommand user dev ty data prio) now s = snd (sendCommand user dev ty data prio now s)"
| "handle (Cancel user i) now s = snd (cancelCommand user i now s)"
| "handle (Retry user i) now s = snd (retryCommand user i now s)"
| "handle (Heartbeat dev batteryLevel isCharging otherData) now s =
     snd (receiveHeartbeat dev batteryLevel isCharging otherData now s)"
| "handle (ToggleBlock user dev blocked) now s = snd (toggleDeviceBlock user dev blocked now s)"
| "handle (UpdateSettings user dev heartbeatInterval maxBatteryAlert body) now s =
     snd (updateDeviceSettings user dev heartbeatInterval maxBatteryAlert body now s)"
| "handle OfflineJob now s = detectOfflineDevices now s"
| "handle TtlMonitor now s = ttl_monitor now s"

text \<open>A run: the steps in order, each with the time at which it happens.\<close>

fun run :: "(request \<times> int) list \<Rightarrow> Store \<Rightarrow> Store" where
  "run [] s = s"
| "run ((r, now) # rest) s = run rest (handle r now s)"

section \<open>Example stores\<close>

text \<open>A command as \<^verbatim>\<open>Command.create\<close> leaves it at time \<open>t\<close>, for device \<open>dev1\<close> of parent 7.\<close>

definition example_command :: "nat \<Rightarrow> priority \<Rightarrow> int \<Rightarrow> Command" where
  "example_command i p t = pre_save t (new_command i ''dev1'' 7 Lock_device [] p t)"

text \<open>Three queued commands: A (high, created at 1000), B (critical, created at 2000) and
  C (high, created at 3000), with ids 1, 2 and 3.\<close>

definition ordering_store :: Store where
  "ordering_store =
     \<lparr>commands = [example_command 1 High 1000, example_command 2 Critical 2000,
                  example_command 3 High 3000],
      devices = [], alerts = [], nextId = 4\<rparr>"

text \<open>One command of normal priority that the device has pulled.\<close>

definition sent_store :: Store where
  "sent_store =
     \<lparr>commands = [(example_command 1 Normal 0)\<lparr>status := Sent\<rparr>],
      devices = [], alerts = [], nextId = 2\<rparr>"

text \<open>The pulled command after four failed attempts, and the same store after the fifth
  failure has been reported at time 1000.\<close>

definition retry4_store :: Store where
  "retry4_store =
     \<lparr>commands = [(example_command 1 Normal 0)\<lparr>status := Sent, retryCount := 4\<rparr>],
      devices = [], alerts = [], nextId = 2\<rparr>"

definition exhausted_store :: Store where
  "exhausted_store = snd (reportCommandResult 1 False None None 1000 retry4_store)"

definition example_run :: "(request \<times> int) list" where
  "example_run =
     [(ReportResult 1 False None None, 2000), (GetPending ''dev1'', 3000), (Retry 7 1, 4000),
      (Acknowledge 1, 5000), (ReportResult 1 False None None, 6000), (GetPending ''dev1'', 7000)]"

section \<open>Properties of a store\<close>

text \<open>The command with id \<open>i\<close> has used up its retries: the id has been given out, and
  whatever is stored under it has \<open>retryCount\<close> 5 and is not pending.\<close>

definition retry_ceiling_reached :: "nat \<Rightarrow> Store \<Rightarrow> bool" where
  "retry_ceiling_reached i s =
     (i < nextId s
      \<and> (\<forall>c\<in>set (commands s). cid c = i \<longrightarrow> retryCount c = 5 \<and> status c \<noteq> Pending))"

text \<open>The command with id \<open>i\<close> is out of the queue for good: as above, and it is not sent
  either, so that no pull query matches it.\<close>

definition retries_exhausted :: "nat \<Rightarrow> Store \<Rightarrow> bool" where
  "retries_exhausted i s =
     (i < nextId s
      \<and> (\<forall>c\<in>set (commands s).
            cid c = i \<longrightarrow> retryCount c = 5 \<and> status c \<noteq> Pending \<and> status c \<noteq> Sent))"

text \<open>Four devices of parent 7 and the three queued commands of \<open>ordering_store\<close>: \<open>dev1\<close>
  is online and was last heard at time 0, \<open>dev2\<close> is online and was last heard at time
  1000000, \<open>dev3\<close> is offline already, \<open>dev4\<close> is marked online and never sent a heartbeat.\<close>

definition example_device :: "nat \<Rightarrow> string \<Rightarrow> bool \<Rightarrow> int option \<Rightarrow> Device" where
  "example_device i dev online hb =
     \<lparr>d_id = i, d_deviceId = dev, d_deviceName = ''Child Device'', d_parentId = Some 7,
      d_childId = Some 7, d_isOnline = online, d_lastHeartbeat = hb, d_batteryLevel = 80,
      d_isCharging = False, d_networkType = ''unknown'', d_signalStrength = - 1,
      d_isBlocked = False, d_heartbeatInterval = 300, d_maxBatteryAlert = 20,
      d_status = ''active'', d_updatedAt = 0\<rparr>"

definition presence_store :: Store where
  "presence_store =
     \<lparr>commands = commands ordering_store,
      devices = [example_device 10 ''dev1'' True (Some 0),
                 example_device 11 ''dev2'' True (Some 1000000),
                 example_device 12 ''dev3'' False (Some 0),
                 example_device 13 ''dev4'' True None],
      alerts = [], nextId = 14\<rparr>"

definition expiry_run :: "(request \<times> int) list" where
  "expiry_run =
     [(SendCommand 7 ''dev1'' Factory_reset [] (Some Critical), 500),
      (ToggleBlock 7 ''dev2'' True, 600), (GetPending ''dev1'', 700),
      (ReportResult 1 False None None, 800), (Retry 7 1, 900), (OfflineJob, 1000000),
      (TtlMonitor, 90000000)]"

text \<open>\<open>presence_store\<close> after \<open>dev1\<close> has sent, at time 1000, a heartbeat whose body reports the
  network type \<open>5g\<close>.\<close>

definition unvalidated_store :: Store where
  "unvalidated_store =
     snd (receiveHeartbeat ''dev1'' 80 False [F_networkType ''5g''] 1000 presence_store)"

section \<open>Facts about the primitives\<close>

lemma set_insert_sorted: "set (insert_sorted c xs) = insert c (set xs)"
  by (induction xs) auto

lemma set_sort_commands: "set (sort_commands xs) = set xs"
  unfolding sort_commands_def by (induction xs) (auto simp: set_insert_sorted)

lemmas example_defs =
  ordering_store_def sent_store_def example_command_def new_command_def pre_save_def

section \<open>Delivery order and eligibility\<close>

text \<open>
  C1. The claim asks for the pull order B, A, C on the commands A (high), B (critical,
  younger than A) and C (high, younger than A). The query sorts the stored priority
  \<^emph>\<open>string\<close> in descending order, and \<open>''high''\<close> is greater than \<open>''critical''\<close>: on this
  store the handler answers A, C, B, with the critical command last.
\<close>

theorem C1_pull_order_on_example:
  "fst (getPendingCommands ''dev1'' 5000 ordering_store) =
     Ok (map summary [example_command 1 High 1000, example_command 3 High 3000,
                      example_command 2 Critical 2000])"
  by (simp add: getPendingCommands_def Let_def pending_found_def example_defs
      pending_filter_def sort_commands_def sorts_before_def summary_def)

text \<open>
  C2. The claim asks that a command whose failure set \<open>nextRetryAt\<close> in the future is not
  returned before that time. A failure reported at time 1000 for the pulled command of
  \<open>sent_store\<close> sets \<open>nextRetryAt\<close> to 3000 and the status back to pending; the pull at
  time 1500 returns the command all the same, since the query never reads \<open>nextRetryAt\<close>.
\<close>

theorem C2_pull_ignores_nextRetryAt:
  "map (\<lambda>c. (cid c, status c, retryCount c, nextRetryAt c))
       (commands (snd (reportCommandResult 1 False None None 1000 sent_store)))
     = [(1, Pending, 1, Some 3000)]
   \<and> (case fst (getPendingCommands ''dev1'' 1500
                  (snd (reportCommandResult 1 False None None 1000 sent_store))) of
        Ok out \<Rightarrow> map cs_id out = [1] | _ \<Rightarrow> False)"
  by (simp add: reportCommandResult_def markAsFailed_def markAsFailed_doc_def persist_def
      retryCount_valid_def or_default_def getPendingCommands_def Let_def pending_found_def
      example_defs pending_filter_def sort_commands_def sorts_before_def summary_def)

text \<open>
  C6. A pull never returns a command whose \<open>expiresAt\<close> is not after \<open>now\<close>, whatever the
  command's status: every summary in the answer is the summary of a stored command whose
  \<open>expiresAt\<close> is set and lies strictly after \<open>now\<close>.
\<close>

theorem C6_pull_never_returns_expired:
  assumes "getPendingCommands dev now s = (Ok out, s')"
  shows "\<forall>x\<in>set out. \<exists>c\<in>set (commands s).
           x = summary c \<and> (\<exists>e. expiresAt c = Some e \<and> now < e) \<and> \<not> (\<exists>e. expiresAt c = Some e \<and> e \<le> now)"
proof -
  from assms have o: "out = map summary (pending_found dev now s)"
    by (simp add: getPendingCommands_def Let_def)
  show ?thesis
  proof
    fix x assume "x \<in> set out"
    then obtain c where c: "c \<in> set (pending_found dev now s)" "x = summary c"
      using o by auto
    then have "c \<in> set (commands s)" "pending_filter dev now c"
      by (simp_all add: pending_found_def set_sort_commands)
    then show "\<exists>c\<in>set (commands s).
           x = summary c \<and> (\<exists>e. expiresAt c = Some e \<and> now < e) \<and> \<not> (\<exists>e. expiresAt c = Some e \<and> e \<le> now)"
      using c(2) by (cases "expiresAt c") (auto simp: pending_filter_def)
  qed
qed

theorem C6_pull_never_returns_expired_witness:
  "getPendingCommands ''dev1'' 86401500 ordering_store
     = (Ok (map summary [example_command 3 High 3000, example_command 2 Critical 2000]),
        snd (getPendingCommands ''dev1'' 86401500 ordering_store))
   \<and> (\<exists>c\<in>set (commands ordering_store).
         summary (example_command 3 High 3000) = summary c
         \<and> (\<exists>e. expiresAt c = Some e \<and> 86401500 < e)
         \<and> \<not> (\<exists>e. expiresAt c = Some e \<and> e \<le> 86401500))
   \<and> (\<exists>c\<in>set (commands ordering_store).
         summary (example_command 2 Critical 2000) = summary c
         \<and> (\<exists>e. expiresAt c = Some e \<and> 86401500 < e)
         \<and> \<not> (\<exists>e. expiresAt c = Some e \<and> e \<le> 86401500))"
proof -
  have h: "getPendingCommands ''dev1'' 86401500 ordering_store
     = (Ok (map summary [example_command 3 High 3000, example_command 2 Critical 2000]),
        snd (getPendingCommands ''dev1'' 86401500 ordering_store))"
    by (simp add: getPendingCommands_def Let_def pending_found_def example_defs
        pending_filter_def sort_commands_def sorts_before_def summary_def)
  show ?thesis
    using h C6_pull_never_returns_expired [OF h] by simp
qed

section \<open>Acknowledgement and results of commands that are no longer in flight\<close>

lemmas handler_defs =
  reportCommandResult_def markAsFailed_def markAsFailed_doc_def markAsCompleted_def
  persist_def retryCount_valid_def or_default_def acknowledgeCommand_def cancelCommand_def
  Let_def

text \<open>
  C4. The claim asks that acknowledging a command in a terminal state returns an error
  and leaves the command alone. The handler updates by id without looking at the status:
  once the pulled command of \<open>sent_store\<close> has been reported as done at time 1000, it is
  completed; acknowledging it at time 3000 answers success, moves it from completed to
  delivered and stamps \<open>updatedAt\<close>.
\<close>

theorem C4_acknowledge_completed_command:
  "map (\<lambda>c. (cid c, status c, updatedAt c))
       (commands (snd (reportCommandResult 1 True None None 1000 sent_store)))
     = [(1, Completed, 1000)]
   \<and> fst (acknowledgeCommand 1 3000 (snd (reportCommandResult 1 True None None 1000 sent_store)))
     = Ok ()
   \<and> map (\<lambda>c. (cid c, status c, updatedAt c))
       (commands (snd (acknowledgeCommand 1 3000
                         (snd (reportCommandResult 1 True None None 1000 sent_store)))))
     = [(1, Delivered, 3000)]"
  by (simp add: handler_defs example_defs)

text \<open>
  C5. The claim asks that a result reported for a cancelled command is accepted and
  changes nothing. Parent 7 cancels the pulled command of \<open>sent_store\<close> at time 500, which
  makes it expired. A success reported at time 1000 is accepted and makes the command
  completed, with \<open>executionResult\<close> and \<open>executedAt\<close> written; a failure reported instead
  puts the cancelled command back to pending with \<open>retryCount\<close> 1.
\<close>

theorem C5_result_after_cancel:
  "fst (cancelCommand 7 1 500 sent_store) = Ok ()
   \<and> map (\<lambda>c. (cid c, status c, executionResult c, executedAt c))
       (commands (snd (cancelCommand 7 1 500 sent_store)))
     = [(1, Expired, None, None)]
   \<and> fst (reportCommandResult 1 True (Some ''done'') None 1000
            (snd (cancelCommand 7 1 500 sent_store)))
     = Ok ()
   \<and> map (\<lambda>c. (cid c, status c, executionResult c, executedAt c))
       (commands (snd (reportCommandResult 1 True (Some ''done'') None 1000
                         (snd (cancelCommand 7 1 500 sent_store)))))
     = [(1, Completed,
         Some \<lparr>er_success = True, er_message = ''done'', er_data = None, er_timestamp = 1000\<rparr>,
         Some 1000)]
   \<and> map (\<lambda>c. (cid c, status c, retryCount c))
       (commands (snd (reportCommandResult 1 False None None 1000
                         (snd (cancelCommand 7 1 500 sent_store)))))
     = [(1, Pending, 1)]"
  by (simp add: handler_defs example_defs)

section \<open>Facts about the handlers\<close>

lemma findOne_SomeD: "findOne p xs = Some x \<Longrightarrow> x \<in> set xs \<and> p x"
  by (induction xs) (auto split: if_splits)

lemma findOne_None_iff: "(findOne p xs = None) = (\<forall>x\<in>set xs. \<not> p x)"
  by (induction xs) auto

lemma updateOne_preserves:
  "\<forall>x\<in>set xs. Q x \<Longrightarrow> (\<And>x. x \<in> set xs \<Longrightarrow> p x \<Longrightarrow> Q (f x)) \<Longrightarrow> \<forall>x\<in>set (updateOne p f xs). Q x"
  by (induction xs) auto

lemma updateMany_preserves:
  "\<forall>x\<in>set xs. Q x \<Longrightarrow> (\<And>x. x \<in> set xs \<Longrightarrow> p x \<Longrightarrow> Q (f x)) \<Longrightarrow> \<forall>x\<in>set (updateMany p f xs). Q x"
  by (auto simp: updateMany_def)

lemma Alert_create_frame:
  "Alert_create dev par ty msg sev now s = Inr s' \<Longrightarrow>
   commands s' = commands s \<and> nextId s \<le> nextId s' \<and> devices s' = devices s"
  by (auto simp: Alert_create_def split: option.splits if_splits)

lemma Device_save_frame:
  "Device_save now assign device s = Inr s' \<Longrightarrow>
   commands s' = commands s \<and> nextId s' = nextId s \<and> alerts s' = alerts s"
  by (auto simp: Device_save_def split: if_splits)

lemma offline_loop_frame:
  "commands (offline_loop now ds s) = commands s \<and> nextId s \<le> nextId (offline_loop now ds s)"
proof (induction ds arbitrary: s)
  case Nil
  show ?case by simp
next
  case (Cons d ds)
  show ?case
  proof (cases "Device_save now (\<lambda>d. d\<lparr>d_isOnline := False\<rparr>) d s")
    case (Inl e)
    then show ?thesis by simp
  next
    case (Inr s1)
    note f1 = Device_save_frame[OF Inr]
    show ?thesis
    proof (cases "Alert_create (d_deviceId d) (d_parentId d) Device_offline (offline_message d)
                    Sev_medium now s1")
      case (Inl e)
      then show ?thesis using Inr f1 by simp
    next
      case s2: (Inr s2)
      from Alert_create_frame[OF s2] Cons.IH[of s2] f1 show ?thesis
        using Inr s2 by simp
    qed
  qed
qed

lemma detectOfflineDevices_frame:
  "commands (detectOfflineDevices now s) = commands s \<and> nextId s \<le> nextId (detectOfflineDevices now s)"
  by (simp add: detectOfflineDevices_def Let_def offline_loop_frame)

lemma receiveHeartbeat_frame:
  "commands (snd (receiveHeartbeat dev b ch od now s)) = commands s
   \<and> nextId s \<le> nextId (snd (receiveHeartbeat dev b ch od now s))"
  by (auto simp: receiveHeartbeat_def updateHeartbeat_def Device_save_def Alert_create_def Let_def
      split: option.splits sum.splits if_splits)

lemma Command_create_preserves:
  assumes "Command_create dev par ty cmd prio now s = Inr (c, s')"
    and "\<forall>x\<in>set (commands s). Q x" and "n0 \<le> nextId s"
    and "\<And>j. n0 \<le> j \<Longrightarrow> dev \<noteq> [] \<Longrightarrow> Q (pre_save now (new_command j dev par ty cmd prio now))"
  shows "(\<forall>x\<in>set (commands s'). Q x) \<and> n0 \<le> nextId s'"
  using assms by (auto simp: Command_create_def Let_def split: if_splits)


lemma getPendingCommands_preserves:
  assumes inv: "\<forall>c\<in>set (commands s). Q c"
    and sent: "\<And>c t. Q c \<Longrightarrow> Q (c\<lparr>status := Sent, updatedAt := t\<rparr>)"
  shows "(\<forall>c\<in>set (commands (snd (getPendingCommands dev now s))). Q c)
         \<and> nextId (snd (getPendingCommands dev now s)) = nextId s"
proof (cases "length (pending_found dev now s) > 0")
  case True
  have "\<forall>x\<in>set (updateMany (\<lambda>c. cid c \<in> set (map cid (pending_found dev now s)))
              (\<lambda>c. c\<lparr>status := Sent, updatedAt := now\<rparr>) (commands s)). Q x"
    by (rule updateMany_preserves[OF inv]) (rule sent, simp add: inv)
  then show ?thesis using True by (simp add: getPendingCommands_def Let_def)
next
  case False
  then show ?thesis using inv by (simp add: getPendingCommands_def Let_def)
qed

lemma getPendingCommands_nextId: "nextId (snd (getPendingCommands dev now s)) = nextId s"
  by (simp add: getPendingCommands_def Let_def)

lemma acknowledgeCommand_preserves:
  assumes inv: "\<forall>c\<in>set (commands s). Q c"
    and deliv: "\<And>c t. Q c \<Longrightarrow> Q (c\<lparr>status := Delivered, updatedAt := t\<rparr>)"
  shows "(\<forall>c\<in>set (commands (snd (acknowledgeCommand i now s))). Q c)
         \<and> nextId (snd (acknowledgeCommand i now s)) = nextId s"
proof (cases "findOne (\<lambda>c. cid c = i) (commands s)")
  case None
  then show ?thesis using inv by (simp add: acknowledgeCommand_def)
next
  case (Some c)
  have "\<forall>x\<in>set (updateOne (\<lambda>c. cid c = i)
              (\<lambda>c. c\<lparr>status := Delivered, updatedAt := now\<rparr>) (commands s)). Q x"
    by (rule updateOne_preserves[OF inv]) (rule deliv, simp add: inv)
  then show ?thesis using Some by (simp add: acknowledgeCommand_def)
qed

lemma cancelCommand_preserves:
  assumes inv: "\<forall>c\<in>set (commands s). Q c"
    and expd: "\<And>c t. Q c \<Longrightarrow> Q (c\<lparr>status := Expired, updatedAt := t\<rparr>)"
  shows "(\<forall>c\<in>set (commands (snd (cancelCommand user i now s))). Q c)
         \<and> nextId (snd (cancelCommand user i now s)) = nextId s"
proof (cases "findOne (\<lambda>c. cid c = i \<and> parentId c = user \<and> (status c = Pending \<or> status c = Sent)) (commands s)")
  case None
  then show ?thesis using inv by (simp add: cancelCommand_def)
next
  case (Some c)
  have "\<forall>x\<in>set (updateOne (\<lambda>c. cid c = i \<and> parentId c = user \<and> (status c = Pending \<or> status c = Sent))
              (\<lambda>c. c\<lparr>status := Expired, updatedAt := now\<rparr>) (commands s)). Q x"
    by (rule updateOne_preserves[OF inv]) (rule expd, simp add: inv)
  then show ?thesis using Some by (simp add: cancelCommand_def)
qed

lemma reportCommandResult_preserves:
  assumes inv: "\<forall>c\<in>set (commands s). Q c"
    and compl: "\<And>c t r. Q c \<Longrightarrow>
       Q ((pre_save t (c\<lparr>status := Completed, executedAt := Some t, executionResult := Some r\<rparr>))\<lparr>updatedAt := t\<rparr>)"
    and fail: "\<And>c t r. Q c \<Longrightarrow> retryCount_valid (markAsFailed_doc r t c) \<Longrightarrow>
       Q ((pre_save t (markAsFailed_doc r t c))\<lparr>updatedAt := t\<rparr>)"
  shows "(\<forall>c\<in>set (commands (snd (reportCommandResult i success message data now s))). Q c)
         \<and> nextId (snd (reportCommandResult i success message data now s)) = nextId s"
proof (cases "findOne (\<lambda>c. cid c = i) (commands s)")
  case None
  then show ?thesis using inv by (simp add: reportCommandResult_def)
next
  case (Some c)
  then have "c \<in> set (commands s)" by (simp add: findOne_SomeD)
  then have c: "Q c" using inv by simp
  show ?thesis
  proof (cases success)
    case True
    have "\<forall>x\<in>set (updateOne (\<lambda>x. cid x = cid c)
            (\<lambda>_. (pre_save now (c\<lparr>status := Completed, executedAt := Some now,
                     executionResult := Some \<lparr>er_success = True,
                       er_message = or_default message ''Command executed successfully'',
                       er_data = data, er_timestamp = now\<rparr>\<rparr>))\<lparr>updatedAt := now\<rparr>) (commands s)). Q x"
      by (rule updateOne_preserves[OF inv]) (rule compl[OF c])
    then show ?thesis using Some True
      by (simp add: reportCommandResult_def markAsCompleted_def persist_def)
  next
    case False
    show ?thesis
    proof (cases "retryCount_valid (markAsFailed_doc (or_default message ''Command execution failed'') now c)")
      case v: True
      have "\<forall>x\<in>set (updateOne (\<lambda>x. cid x = cid c)
            (\<lambda>_. (pre_save now (markAsFailed_doc (or_default message ''Command execution failed'') now c))\<lparr>updatedAt := now\<rparr>) (commands s)). Q x"
        by (rule updateOne_preserves[OF inv]) (rule fail[OF c v])
      moreover have "cid (markAsFailed_doc (or_default message ''Command execution failed'') now c) = cid c"
        by (simp add: markAsFailed_doc_def Let_def)
      ultimately show ?thesis using Some False v
        by (simp add: reportCommandResult_def markAsFailed_def persist_def Let_def)
    next
      case v: False
      then show ?thesis using Some False inv
        by (simp add: reportCommandResult_def markAsFailed_def Let_def)
    qed
  qed
qed


lemma sendCommand_preserves:
  assumes inv: "\<forall>c\<in>set (commands s). Q c" and n: "n0 \<le> nextId s"
    and fresh: "\<And>j dev par ty cmd prio t. n0 \<le> j \<Longrightarrow> dev \<noteq> [] \<Longrightarrow>
       Q (pre_save t (new_command j dev par ty cmd prio t))"
  shows "(\<forall>c\<in>set (commands (snd (sendCommand user dev ty data prio now s))). Q c)
         \<and> n0 \<le> nextId (snd (sendCommand user dev ty data prio now s))"
proof (cases "findOne (\<lambda>d. d_deviceId d = dev \<and> d_parentId d = Some user \<and> d_status d = ''active'')
                (devices s)")
  case None
  then show ?thesis using inv n by (simp add: sendCommand_def)
next
  case (Some device)
  show ?thesis
  proof (cases "Command_create dev user ty data (case prio of None \<Rightarrow> Normal | Some p \<Rightarrow> p) now s")
    case (Inl e)
    then show ?thesis using Some inv n by (simp add: sendCommand_def)
  next
    case (Inr p)
    obtain c' s' where p: "p = (c', s')" by (cases p)
    from Command_create_preserves[OF Inr[unfolded p] inv n fresh] show ?thesis
      using Some Inr p by (simp add: sendCommand_def)
  qed
qed

lemma retryCommand_preserves:
  assumes inv: "\<forall>c\<in>set (commands s). Q c" and n: "n0 \<le> nextId s"
    and fresh: "\<And>j dev par ty cmd prio t. n0 \<le> j \<Longrightarrow> dev \<noteq> [] \<Longrightarrow>
       Q (pre_save t (new_command j dev par ty cmd prio t))"
  shows "(\<forall>c\<in>set (commands (snd (retryCommand user i now s))). Q c)
         \<and> n0 \<le> nextId (snd (retryCommand user i now s))"
proof (cases "findOne (\<lambda>c. cid c = i \<and> parentId c = user \<and> status c = Failed) (commands s)")
  case None
  then show ?thesis using inv n by (simp add: retryCommand_def)
next
  case (Some c)
  show ?thesis
  proof (cases "Command_create (deviceId c) (parentId c) (ctype c) (command c) (priority c) now s")
    case (Inl e)
    then show ?thesis using Some inv n by (simp add: retryCommand_def)
  next
    case (Inr p)
    obtain c' s' where p: "p = (c', s')" by (cases p)
    from Command_create_preserves[OF Inr[unfolded p] inv n fresh] show ?thesis
      using Some Inr p by (simp add: retryCommand_def)
  qed
qed

lemma toggleDeviceBlock_preserves:
  assumes inv: "\<forall>c\<in>set (commands s). Q c" and n: "n0 \<le> nextId s"
    and fresh: "\<And>j dev par ty cmd prio t. n0 \<le> j \<Longrightarrow> dev \<noteq> [] \<Longrightarrow>
       Q (pre_save t (new_command j dev par ty cmd prio t))"
  shows "(\<forall>c\<in>set (commands (snd (toggleDeviceBlock user dev blocked now s))). Q c)
         \<and> n0 \<le> nextId (snd (toggleDeviceBlock user dev blocked now s))"
proof (cases "findOne (\<lambda>d. d_deviceId d = dev \<and> d_parentId d = Some user) (devices s)")
  case None
  then show ?thesis using inv n by (simp add: toggleDeviceBlock_def Let_def)
next
  case (Some device)
  define s1 where "s1 = s\<lparr>devices := updateOne (\<lambda>d. d_deviceId d = dev \<and> d_parentId d = Some user)
                (\<lambda>d. d\<lparr>d_isBlocked := blocked, d_updatedAt := now\<rparr>) (devices s)\<rparr>"
  have inv1: "\<forall>c\<in>set (commands s1). Q c" and n1: "n0 \<le> nextId s1"
    using inv n by (simp_all add: s1_def)
  show ?thesis
  proof (cases "Command_create (d_deviceId device) user (if blocked then Lock_device else Unlock_device)
                      [(''reason'', ''Parent remote control'')] High now s1")
    case (Inl e)
    then show ?thesis using Some inv1 n1 by (simp add: toggleDeviceBlock_def Let_def s1_def[symmetric])
  next
    case (Inr p)
    obtain c' s' where p: "p = (c', s')" by (cases p)
    from Command_create_preserves[OF Inr[unfolded p] inv1 n1 fresh] show ?thesis
      using Some Inr p by (simp add: toggleDeviceBlock_def Let_def s1_def[symmetric])
  qed
qed

lemma updateDeviceSettings_preserves:
  assumes inv: "\<forall>c\<in>set (commands s). Q c" and n: "n0 \<le> nextId s"
    and fresh: "\<And>j dev par ty cmd prio t. n0 \<le> j \<Longrightarrow> dev \<noteq> [] \<Longrightarrow>
       Q (pre_save t (new_command j dev par ty cmd prio t))"
  shows "(\<forall>c\<in>set (commands (snd (updateDeviceSettings user dev hi mba body now s))). Q c)
         \<and> n0 \<le> nextId (snd (updateDeviceSettings user dev hi mba body now s))"
proof (cases "(case hi of None \<Rightarrow> False | Some v \<Rightarrow> v < 60 \<or> v > 3600)
              \<or> (case mba of None \<Rightarrow> False | Some v \<Rightarrow> v < 5 \<or> v > 50)")
  case True
  then show ?thesis using inv n by (simp add: updateDeviceSettings_def Let_def)
next
  case ok: False
  show ?thesis
  proof (cases "findOne (\<lambda>d. d_deviceId d = dev \<and> d_parentId d = Some user \<and> d_status d = ''active'')
                  (devices s)")
    case None
    then show ?thesis using inv n ok by (simp add: updateDeviceSettings_def Let_def)
  next
    case (Some device)
    define s1 where "s1 = s\<lparr>devices :=
        updateOne (\<lambda>d. d_deviceId d = dev \<and> d_parentId d = Some user \<and> d_status d = ''active'')
          (\<lambda>d. d\<lparr>d_heartbeatInterval := (case hi of None \<Rightarrow> 300 | Some v \<Rightarrow> v),
                 d_maxBatteryAlert := (case mba of None \<Rightarrow> 20 | Some v \<Rightarrow> v),
                 d_updatedAt := now\<rparr>) (devices s)\<rparr>"
    have inv1: "\<forall>c\<in>set (commands s1). Q c" and n1: "n0 \<le> nextId s1"
      using inv n by (simp_all add: s1_def)
    show ?thesis
    proof (cases "Command_create (d_deviceId device) user Update_settings body High now s1")
      case (Inl e)
      then show ?thesis using Some inv1 n1 ok
        by (simp add: updateDeviceSettings_def Let_def s1_def[symmetric])
    next
      case (Inr p)
      obtain c' s' where p: "p = (c', s')" by (cases p)
      from Command_create_preserves[OF Inr[unfolded p] inv1 n1 fresh] show ?thesis
        using Some Inr p ok by (simp add: updateDeviceSettings_def Let_def s1_def[symmetric])
    qed
  qed
qed

lemma handle_preserves:
  assumes inv: "\<forall>c\<in>set (commands s). Q c" and n: "n0 \<le> nextId s"
    and pull: "\<And>s dev t. \<forall>c\<in>set (commands s). Q c \<Longrightarrow>
       \<forall>c\<in>set (commands (snd (getPendingCommands dev t s))). Q c"
    and deliv: "\<And>c t. Q c \<Longrightarrow> Q (c\<lparr>status := Delivered, updatedAt := t\<rparr>)"
    and expd: "\<And>c t. Q c \<Longrightarrow> Q (c\<lparr>status := Expired, updatedAt := t\<rparr>)"
    and compl: "\<And>c t r. Q c \<Longrightarrow>
       Q ((pre_save t (c\<lparr>status := Completed, executedAt := Some t, executionResult := Some r\<rparr>))\<lparr>updatedAt := t\<rparr>)"
    and fail: "\<And>c t r. Q c \<Longrightarrow> retryCount_valid (markAsFailed_doc r t c) \<Longrightarrow>
       Q ((pre_save t (markAsFailed_doc r t c))\<lparr>updatedAt := t\<rparr>)"
    and fresh: "\<And>j dev par ty cmd prio t. n0 \<le> j \<Longrightarrow> dev \<noteq> [] \<Longrightarrow>
       Q (pre_save t (new_command j dev par ty cmd prio t))"
  shows "(\<forall>c\<in>set (commands (handle r now s)). Q c) \<and> n0 \<le> nextId (handle r now s)"
proof (cases r)
  case (GetPending dev)
  show ?thesis unfolding GetPending handle.simps
    using pull[OF inv, of dev now] n by (simp add: getPendingCommands_nextId)
next
  case (Acknowledge i)
  show ?thesis unfolding Acknowledge handle.simps
    using acknowledgeCommand_preserves[of s Q i now, OF inv deliv] n by simp
next
  case (ReportResult i success message data)
  show ?thesis unfolding ReportResult handle.simps
    using reportCommandResult_preserves[of s Q i success message data now, OF inv compl fail] n
    by simp
next
  case (SendCommand user dev ty data prio)
  show ?thesis unfolding SendCommand handle.simps
    by (rule sendCommand_preserves[OF inv n fresh])
next
  case (Cancel user i)
  show ?thesis unfolding Cancel handle.simps
    using cancelCommand_preserves[of s Q user i now, OF inv expd] n by simp
next
  case (Retry user i)
  show ?thesis unfolding Retry handle.simps
    by (rule retryCommand_preserves[OF inv n fresh])
next
  case (Heartbeat dev b ch od)
  show ?thesis unfolding Heartbeat handle.simps
    using inv n receiveHeartbeat_frame[of dev b ch od now s] by simp
next
  case (ToggleBlock user dev blocked)
  show ?thesis unfolding ToggleBlock handle.simps
    by (rule toggleDeviceBlock_preserves[OF inv n fresh])
next
  case (UpdateSettings user dev hi mba body)
  show ?thesis unfolding UpdateSettings handle.simps
    by (rule updateDeviceSettings_preserves[OF inv n fresh])
next
  case OfflineJob
  show ?thesis unfolding OfflineJob handle.simps
    using inv n detectOfflineDevices_frame[of now s] by simp
next
  case TtlMonitor
  show ?thesis unfolding TtlMonitor handle.simps
    using inv n by (simp add: ttl_monitor_def)
qed

lemma run_preserves:
  assumes inv: "\<forall>c\<in>set (commands s). Q c" and n: "n0 \<le> nextId s"
    and pull: "\<And>s dev t. \<forall>c\<in>set (commands s). Q c \<Longrightarrow>
       \<forall>c\<in>set (commands (snd (getPendingCommands dev t s))). Q c"
    and deliv: "\<And>c t. Q c \<Longrightarrow> Q (c\<lparr>status := Delivered, updatedAt := t\<rparr>)"
    and expd: "\<And>c t. Q c \<Longrightarrow> Q (c\<lparr>status := Expired, updatedAt := t\<rparr>)"
    and compl: "\<And>c t r. Q c \<Longrightarrow>
       Q ((pre_save t (c\<lparr>status := Completed, executedAt := Some t, executionResult := Some r\<rparr>))\<lparr>updatedAt := t\<rparr>)"
    and fail: "\<And>c t r. Q c \<Longrightarrow> retryCount_valid (markAsFailed_doc r t c) \<Longrightarrow>
       Q ((pre_save t (markAsFailed_doc r t c))\<lparr>updatedAt := t\<rparr>)"
    and fresh: "\<And>j dev par ty cmd prio t. n0 \<le> j \<Longrightarrow> dev \<noteq> [] \<Longrightarrow>
       Q (pre_save t (new_command j dev par ty cmd prio t))"
  shows "(\<forall>c\<in>set (commands (run rs s)). Q c) \<and> n0 \<le> nextId (run rs s)"
  using inv n
proof (induction rs arbitrary: s)
  case Nil
  then show ?case by simp
next
  case (Cons a rs)
  obtain r now where a: "a = (r, now)" by (cases a)
  have "(\<forall>c\<in>set (commands (handle r now s)). Q c) \<and> n0 \<le> nextId (handle r now s)"
    by (rule handle_preserves[OF Cons.prems pull deliv expd compl fail fresh])
  then show ?case unfolding a run.simps using Cons.IH by blast
qed

lemma getPendingCommands_keeps_exhausted:
  assumes inv: "\<forall>c\<in>set (commands s).
                  cid c = k \<longrightarrow> retryCount c = 5 \<and> status c \<noteq> Pending \<and> status c \<noteq> Sent"
  shows "\<forall>c\<in>set (commands (snd (getPendingCommands dev t s))).
           cid c = k \<longrightarrow> retryCount c = 5 \<and> status c \<noteq> Pending \<and> status c \<noteq> Sent"
proof (cases "length (pending_found dev t s) > 0")
  case True
  have notfound: "k \<notin> set (map cid (pending_found dev t s))"
  proof
    assume "k \<in> set (map cid (pending_found dev t s))"
    then obtain f where f: "f \<in> set (pending_found dev t s)" "cid f = k" by auto
    then have "f \<in> set (commands s)" "status f = Pending \<or> status f = Sent"
      by (simp_all add: pending_found_def set_sort_commands pending_filter_def)
    then show False using inv f(2) by auto
  qed
  have "\<forall>x\<in>set (updateMany (\<lambda>c. cid c \<in> set (map cid (pending_found dev t s)))
              (\<lambda>c. c\<lparr>status := Sent, updatedAt := t\<rparr>) (commands s)).
          cid x = k \<longrightarrow> retryCount x = 5 \<and> status x \<noteq> Pending \<and> status x \<noteq> Sent"
  proof (rule updateMany_preserves[OF inv])
    fix x assume "cid x \<in> set (map cid (pending_found dev t s))"
    then have "cid x \<noteq> k" using notfound by auto
    then show "cid (x\<lparr>status := Sent, updatedAt := t\<rparr>) = k \<longrightarrow>
        retryCount (x\<lparr>status := Sent, updatedAt := t\<rparr>) = 5
        \<and> status (x\<lparr>status := Sent, updatedAt := t\<rparr>) \<noteq> Pending
        \<and> status (x\<lparr>status := Sent, updatedAt := t\<rparr>) \<noteq> Sent"
      by simp
  qed
  then show ?thesis using True by (simp add: getPendingCommands_def Let_def)
next
  case False
  then show ?thesis using inv by (simp add: getPendingCommands_def Let_def)
qed

lemma findOne_updateOne_const:
  "findOne p xs = Some c \<Longrightarrow> p d \<Longrightarrow> findOne p (updateOne p (\<lambda>_. d) xs) = Some d"
  by (induction xs) (auto split: if_splits)

lemma failed_report_stored:
  assumes f: "findOne (\<lambda>x. cid x = i) (commands s) = Some c" and v: "retryCount c < 5"
  shows "reportCommandResult i False message data now s =
           (Ok (), persist now (markAsFailed_doc (or_default message ''Command execution failed'') now c) s)"
    and "findOne (\<lambda>x. cid x = i)
           (commands (persist now (markAsFailed_doc (or_default message ''Command execution failed'') now c) s))
         = Some ((pre_save now (markAsFailed_doc (or_default message ''Command execution failed'') now c))\<lparr>updatedAt := now\<rparr>)"
proof -
  let ?c' = "markAsFailed_doc (or_default message ''Command execution failed'') now c"
  have valid: "retryCount_valid ?c'"
    using v by (simp add: retryCount_valid_def markAsFailed_doc_def Let_def)
  show "reportCommandResult i False message data now s = (Ok (), persist now ?c' s)"
    using f valid by (simp add: reportCommandResult_def markAsFailed_def Let_def)
  have ci: "cid c = i" using findOne_SomeD[OF f] by simp
  have cid': "cid ?c' = i" using ci by (simp add: markAsFailed_doc_def Let_def)
  have "cid ((pre_save now ?c')\<lparr>updatedAt := now\<rparr>) = i"
    using cid' by (simp add: pre_save_def Let_def split: option.splits)
  from findOne_updateOne_const[of "\<lambda>x. cid x = i" "commands s" c, OF f this]
  show "findOne (\<lambda>x. cid x = i) (commands (persist now ?c' s))
         = Some ((pre_save now ?c')\<lparr>updatedAt := now\<rparr>)"
    using cid' by (simp add: persist_def)
qed

section \<open>Retry after a failed result\<close>

text \<open>
  C3. A failed result reported for the command stored under id \<open>i\<close> increments
  \<open>retryCount\<close>. While the incremented count is below 5 the report is accepted, the
  command is pending again and \<open>nextRetryAt\<close> is \<open>now\<close> plus \<open>2 ^ retryCount\<close> seconds
  (times are in milliseconds). When the incremented count reaches 5 the command becomes
  failed, \<open>nextRetryAt\<close> stays as it was and no pull query matches the command. A
  command that has reached the ceiling never becomes pending again: no run of handler
  calls, job ticks and TTL passes leads out of \<open>retry_ceiling_reached\<close>. Nor is there a
  further retry: a command that is out of the queue with \<open>retryCount\<close> 5 stays so along
  every run, and no pull returns it.
\<close>

theorem C3_failed_result_backoff_and_ceiling:
  assumes f: "findOne (\<lambda>x. cid x = i) (commands s) = Some c"
  shows "(retryCount c + 1 < 5 \<longrightarrow>
            (\<exists>c'. reportCommandResult i False message data now s
                     = (Ok (), snd (reportCommandResult i False message data now s))
                 \<and> findOne (\<lambda>x. cid x = i)
                     (commands (snd (reportCommandResult i False message data now s))) = Some c'
                 \<and> retryCount c' = retryCount c + 1 \<and> status c' = Pending
                 \<and> nextRetryAt c' = Some (now + 2 ^ retryCount c' * 1000)))
       \<and> (retryCount c + 1 = 5 \<longrightarrow>
            (\<exists>c'. reportCommandResult i False message data now s
                     = (Ok (), snd (reportCommandResult i False message data now s))
                 \<and> findOne (\<lambda>x. cid x = i)
                     (commands (snd (reportCommandResult i False message data now s))) = Some c'
                 \<and> retryCount c' = 5 \<and> status c' = Failed \<and> nextRetryAt c' = nextRetryAt c
                 \<and> (\<forall>dev t. \<not> pending_filter dev t c')))
       \<and> (retry_ceiling_reached k st \<longrightarrow> retry_ceiling_reached k (run rs st))
       \<and> (retries_exhausted k st \<longrightarrow>
            retries_exhausted k (run rs st)
            \<and> (\<forall>dev t. k \<notin> cid ` set (pending_found dev t (run rs st))))"
proof (intro conjI impI)
  let ?c' = "markAsFailed_doc (or_default message ''Command execution failed'') now c"
  let ?d = "(pre_save now ?c')\<lparr>updatedAt := now\<rparr>"
  {
    assume v: "retryCount c + 1 < 5"
    then have v': "retryCount c < 5" by simp
    note st = failed_report_stored[OF f v']
    have "retryCount ?d = retryCount c + 1 \<and> status ?d = Pending
          \<and> nextRetryAt ?d = Some (now + 2 ^ retryCount ?d * 1000)"
      using v by (simp add: markAsFailed_doc_def pre_save_def Let_def split: option.splits)
    then show "\<exists>c'. reportCommandResult i False message data now s
                     = (Ok (), snd (reportCommandResult i False message data now s))
                 \<and> findOne (\<lambda>x. cid x = i)
                     (commands (snd (reportCommandResult i False message data now s))) = Some c'
                 \<and> retryCount c' = retryCount c + 1 \<and> status c' = Pending
                 \<and> nextRetryAt c' = Some (now + 2 ^ retryCount c' * 1000)"
      using st by simp
  }
  {
    assume v: "retryCount c + 1 = 5"
    then have v': "retryCount c < 5" by simp
    note st = failed_report_stored[OF f v']
    have "retryCount ?d = 5 \<and> status ?d = Failed \<and> nextRetryAt ?d = nextRetryAt c
          \<and> (\<forall>dev t. \<not> pending_filter dev t ?d)"
      using v by (simp add: markAsFailed_doc_def pre_save_def pending_filter_def Let_def split: option.splits)
    then show "\<exists>c'. reportCommandResult i False message data now s
                     = (Ok (), snd (reportCommandResult i False message data now s))
                 \<and> findOne (\<lambda>x. cid x = i)
                     (commands (snd (reportCommandResult i False message data now s))) = Some c'
                 \<and> retryCount c' = 5 \<and> status c' = Failed \<and> nextRetryAt c' = nextRetryAt c
                 \<and> (\<forall>dev t. \<not> pending_filter dev t c')"
      using st by simp
  }
  {
    assume a: "retry_ceiling_reached k st"
    let ?Q = "\<lambda>c. cid c = k \<longrightarrow> retryCount c = 5 \<and> status c \<noteq> Pending"
    have inv: "\<forall>c\<in>set (commands st). ?Q c" and n: "Suc k \<le> nextId st"
      using a by (simp_all add: retry_ceiling_reached_def)
    have "(\<forall>c\<in>set (commands (run rs st)). ?Q c) \<and> Suc k \<le> nextId (run rs st)"
    proof (rule run_preserves[OF inv n])
      fix c :: Command and t r
      assume q: "?Q c" and "retryCount_valid (markAsFailed_doc r t c)"
      then have "retryCount c < 5"
        by (simp add: retryCount_valid_def markAsFailed_doc_def Let_def split: if_splits)
      then have "cid c \<noteq> k" using q by auto
      then show "?Q ((pre_save t (markAsFailed_doc r t c))\<lparr>updatedAt := t\<rparr>)"
        by (simp add: markAsFailed_doc_def pre_save_def Let_def split: option.splits)
    next
      fix s :: Store and dev t assume "\<forall>c\<in>set (commands s). ?Q c"
      then show "\<forall>c\<in>set (commands (snd (getPendingCommands dev t s))). ?Q c"
        using getPendingCommands_preserves[of s ?Q dev t] by simp
    qed (simp_all add: pre_save_def new_command_def Let_def split: option.splits)
    then show "retry_ceiling_reached k (run rs st)"
      by (simp add: retry_ceiling_reached_def)
  }
  {
    assume a: "retries_exhausted k st"
    let ?R = "\<lambda>c. cid c = k \<longrightarrow> retryCount c = 5 \<and> status c \<noteq> Pending \<and> status c \<noteq> Sent"
    have inv: "\<forall>c\<in>set (commands st). ?R c" and n: "Suc k \<le> nextId st"
      using a by (simp_all add: retries_exhausted_def)
    have fin: "(\<forall>c\<in>set (commands (run rs st)). ?R c) \<and> Suc k \<le> nextId (run rs st)"
    proof (rule run_preserves[OF inv n])
      fix c :: Command and t r
      assume q: "?R c" and "retryCount_valid (markAsFailed_doc r t c)"
      then have "retryCount c < 5"
        by (simp add: retryCount_valid_def markAsFailed_doc_def Let_def split: if_splits)
      then have "cid c \<noteq> k" using q by auto
      then show "?R ((pre_save t (markAsFailed_doc r t c))\<lparr>updatedAt := t\<rparr>)"
        by (simp add: markAsFailed_doc_def pre_save_def Let_def split: option.splits)
    next
      fix s :: Store and dev t assume "\<forall>c\<in>set (commands s). ?R c"
      then show "\<forall>c\<in>set (commands (snd (getPendingCommands dev t s))). ?R c"
        by (rule getPendingCommands_keeps_exhausted)
    qed (simp_all add: pre_save_def new_command_def Let_def split: option.splits)
    then show "retries_exhausted k (run rs st)"
      by (simp add: retries_exhausted_def)
    show "\<forall>dev t. k \<notin> cid ` set (pending_found dev t (run rs st))"
    proof (intro allI notI)
      fix dev t assume "k \<in> cid ` set (pending_found dev t (run rs st))"
      then obtain f where f: "f \<in> set (pending_found dev t (run rs st))" "cid f = k" by auto
      then have "f \<in> set (commands (run rs st))" "status f = Pending \<or> status f = Sent"
        by (simp_all add: pending_found_def set_sort_commands pending_filter_def)
      then show False using fin f(2) by auto
    qed
  }
qed

theorem C3_failed_result_backoff_and_ceiling_witness:
  "findOne (\<lambda>x. cid x = 1) (commands sent_store) = Some ((example_command 1 Normal 0)\<lparr>status := Sent\<rparr>)
   \<and> (\<exists>c'. reportCommandResult 1 False None None 1000 sent_store
              = (Ok (), snd (reportCommandResult 1 False None None 1000 sent_store))
          \<and> findOne (\<lambda>x. cid x = 1)
              (commands (snd (reportCommandResult 1 False None None 1000 sent_store))) = Some c'
          \<and> retryCount c' = 1 \<and> status c' = Pending \<and> nextRetryAt c' = Some 3000)
   \<and> findOne (\<lambda>x. cid x = 1) (commands retry4_store)
        = Some ((example_command 1 Normal 0)\<lparr>status := Sent, retryCount := 4\<rparr>)
   \<and> (\<exists>c'. reportCommandResult 1 False None None 1000 retry4_store
              = (Ok (), snd (reportCommandResult 1 False None None 1000 retry4_store))
          \<and> findOne (\<lambda>x. cid x = 1)
              (commands (snd (reportCommandResult 1 False None None 1000 retry4_store))) = Some c'
          \<and> retryCount c' = 5 \<and> status c' = Failed \<and> nextRetryAt c' = None)
   \<and> retry_ceiling_reached 1 exhausted_store
   \<and> retry_ceiling_reached 1 (run example_run exhausted_store)
   \<and> retries_exhausted 1 exhausted_store
   \<and> retries_exhausted 1 (run example_run exhausted_store)
   \<and> 1 \<notin> cid ` set (pending_found ''dev1'' 8000 (run example_run exhausted_store))"
proof -
  have f1: "findOne (\<lambda>x. cid x = 1) (commands sent_store)
              = Some ((example_command 1 Normal 0)\<lparr>status := Sent\<rparr>)"
    by (simp add: example_defs)
  have f2: "findOne (\<lambda>x. cid x = 1) (commands retry4_store)
              = Some ((example_command 1 Normal 0)\<lparr>status := Sent, retryCount := 4\<rparr>)"
    by (simp add: retry4_store_def example_defs)
  have r: "retry_ceiling_reached 1 exhausted_store"
    by (simp add: retry_ceiling_reached_def exhausted_store_def retry4_store_def handler_defs
        example_defs)
  have a: "\<exists>c'. reportCommandResult 1 False None None 1000 sent_store
              = (Ok (), snd (reportCommandResult 1 False None None 1000 sent_store))
          \<and> findOne (\<lambda>x. cid x = 1)
              (commands (snd (reportCommandResult 1 False None None 1000 sent_store))) = Some c'
          \<and> retryCount c' = 1 \<and> status c' = Pending \<and> nextRetryAt c' = Some 3000"
  proof -
    have lt: "retryCount ((example_command 1 Normal 0)\<lparr>status := Sent\<rparr>) + 1 < 5"
      by (simp add: example_defs)
    from C3_failed_result_backoff_and_ceiling
           [OF f1, where message = None and data = None and now = 1000] lt
    obtain c' where
      "reportCommandResult 1 False None None 1000 sent_store
         = (Ok (), snd (reportCommandResult 1 False None None 1000 sent_store))"
      "findOne (\<lambda>x. cid x = 1)
         (commands (snd (reportCommandResult 1 False None None 1000 sent_store))) = Some c'"
      "retryCount c' = retryCount ((example_command 1 Normal 0)\<lparr>status := Sent\<rparr>) + 1"
      "status c' = Pending" "nextRetryAt c' = Some (1000 + 2 ^ retryCount c' * 1000)"
      by blast
    then show ?thesis
      by (intro exI[of _ c']) (simp add: example_defs)
  qed
  have b: "\<exists>c'. reportCommandResult 1 False None None 1000 retry4_store
              = (Ok (), snd (reportCommandResult 1 False None None 1000 retry4_store))
          \<and> findOne (\<lambda>x. cid x = 1)
              (commands (snd (reportCommandResult 1 False None None 1000 retry4_store))) = Some c'
          \<and> retryCount c' = 5 \<and> status c' = Failed \<and> nextRetryAt c' = None"
  proof -
    have eq: "retryCount ((example_command 1 Normal 0)\<lparr>status := Sent, retryCount := 4\<rparr>) + 1 = 5"
      by simp
    from C3_failed_result_backoff_and_ceiling
           [OF f2, where message = None and data = None and now = 1000] eq
    obtain c' where
      "reportCommandResult 1 False None None 1000 retry4_store
         = (Ok (), snd (reportCommandResult 1 False None None 1000 retry4_store))"
      "findOne (\<lambda>x. cid x = 1)
         (commands (snd (reportCommandResult 1 False None None 1000 retry4_store))) = Some c'"
      "retryCount c' = 5" "status c' = Failed"
      "nextRetryAt c' = nextRetryAt ((example_command 1 Normal 0)\<lparr>status := Sent, retryCount := 4\<rparr>)"
      by blast
    then show ?thesis
      by (intro exI[of _ c']) (simp add: example_defs)
  qed
  have c: "retry_ceiling_reached 1 (run example_run exhausted_store)"
    using C3_failed_result_backoff_and_ceiling [OF f1, where k = 1 and st = exhausted_store and rs = example_run] r
    by blast
  have r': "retries_exhausted 1 exhausted_store"
    by (simp add: retries_exhausted_def exhausted_store_def retry4_store_def handler_defs
        example_defs)
  have d: "retries_exhausted 1 (run example_run exhausted_store)
           \<and> 1 \<notin> cid ` set (pending_found ''dev1'' 8000 (run example_run exhausted_store))"
    using C3_failed_result_backoff_and_ceiling
            [OF f1, where k = 1 and st = exhausted_store and rs = example_run] r'
    by blast
  show ?thesis using f1 f2 r a b c r' d by blast
qed

section \<open>Retry by the parent\<close>

text \<open>
  C8. Retrying a failed command that the calling parent owns creates a new command and
  leaves the old one as it is: the answer carries a command whose id is in use nowhere in
  the collection (so it differs from the id of the original), with \<open>retryCount\<close> 0, status
  pending and the type, payload, priority, device and parent of the original; the store
  is the old one with this command appended. When no command with this id is both owned
  by the caller and failed, the answer is NotFound and the store is unchanged. The store
  is taken as the database keeps it: ids below the id counter, and the required
  \<open>deviceId\<close> of the original not empty.
\<close>

theorem C8_retry_creates_fresh_clone:
  "(findOne (\<lambda>c. cid c = i \<and> parentId c = user \<and> status c = Failed) (commands s) = Some c
      \<and> deviceId c \<noteq> [] \<and> (\<forall>x\<in>set (commands s). cid x < nextId s)
    \<longrightarrow> (\<exists>n. retryCommand user i now s
                 = (Ok n, s\<lparr>commands := commands s @ [n], nextId := nextId s + 1\<rparr>)
             \<and> cid n \<notin> cid ` set (commands s) \<and> cid n \<noteq> i
             \<and> retryCount n = 0 \<and> status n = Pending
             \<and> ctype n = ctype c \<and> command n = command c \<and> priority n = priority c
             \<and> deviceId n = deviceId c \<and> parentId n = parentId c \<and> parentId n = user))
   \<and> ((\<forall>x\<in>set (commands s). cid x = i \<longrightarrow> parentId x \<noteq> user \<or> status x \<noteq> Failed)
    \<longrightarrow> retryCommand user i now s = (NotFound, s))"
proof (intro conjI impI)
  assume a: "findOne (\<lambda>c. cid c = i \<and> parentId c = user \<and> status c = Failed) (commands s) = Some c
      \<and> deviceId c \<noteq> [] \<and> (\<forall>x\<in>set (commands s). cid x < nextId s)"
  then have f: "findOne (\<lambda>c. cid c = i \<and> parentId c = user \<and> status c = Failed) (commands s) = Some c"
    and d: "deviceId c \<noteq> []" and wf: "\<forall>x\<in>set (commands s). cid x < nextId s"
    by simp_all
  from findOne_SomeD[OF f] have cin: "c \<in> set (commands s)" and ci: "cid c = i"
    and cp: "parentId c = user" by simp_all
  let ?n = "pre_save now (new_command (nextId s) (deviceId c) (parentId c) (ctype c) (command c) (priority c) now)"
  have r: "retryCommand user i now s = (Ok ?n, s\<lparr>commands := commands s @ [?n], nextId := nextId s + 1\<rparr>)"
    using f d by (simp add: retryCommand_def Command_create_def Let_def)
  have fields: "cid ?n = nextId s" "retryCount ?n = 0" "status ?n = Pending" "ctype ?n = ctype c"
    "command ?n = command c" "priority ?n = priority c" "deviceId ?n = deviceId c"
    "parentId ?n = parentId c"
    by (simp_all add: pre_save_def new_command_def Let_def)
  have fresh: "cid ?n \<notin> cid ` set (commands s)" using wf fields(1) by auto
  have "cid ?n \<noteq> i" using wf cin ci fields(1) by auto
  with r fields fresh cp
  show "\<exists>n. retryCommand user i now s
                 = (Ok n, s\<lparr>commands := commands s @ [n], nextId := nextId s + 1\<rparr>)
             \<and> cid n \<notin> cid ` set (commands s) \<and> cid n \<noteq> i
             \<and> retryCount n = 0 \<and> status n = Pending
             \<and> ctype n = ctype c \<and> command n = command c \<and> priority n = priority c
             \<and> deviceId n = deviceId c \<and> parentId n = parentId c \<and> parentId n = user"
    by (intro exI[of _ ?n]) simp
next
  assume "\<forall>x\<in>set (commands s). cid x = i \<longrightarrow> parentId x \<noteq> user \<or> status x \<noteq> Failed"
  then have "findOne (\<lambda>c. cid c = i \<and> parentId c = user \<and> status c = Failed) (commands s) = None"
    by (auto simp: findOne_None_iff)
  then show "retryCommand user i now s = (NotFound, s)"
    by (simp add: retryCommand_def)
qed

theorem C8_retry_creates_fresh_clone_witness:
  "findOne (\<lambda>c. cid c = 1 \<and> parentId c = 7 \<and> status c = Failed) (commands exhausted_store)
     = Some ((example_command 1 Normal 0)
               \<lparr>status := Failed, retryCount := 5,
                failureReason := Some ''Command execution failed'', updatedAt := 1000\<rparr>)
   \<and> (\<exists>n. retryCommand 7 1 9000 exhausted_store
             = (Ok n, exhausted_store\<lparr>commands := commands exhausted_store @ [n], nextId := 3\<rparr>)
          \<and> cid n = 2 \<and> retryCount n = 0 \<and> status n = Pending \<and> ctype n = Lock_device
          \<and> command n = [] \<and> priority n = Normal \<and> deviceId n = ''dev1'' \<and> parentId n = 7)
   \<and> retryCommand 8 1 9000 exhausted_store = (NotFound, exhausted_store)
   \<and> retryCommand 7 1 9000 sent_store = (NotFound, sent_store)"
proof -
  let ?c = "(example_command 1 Normal 0)
               \<lparr>status := Failed, retryCount := 5,
                failureReason := Some ''Command execution failed'', updatedAt := 1000\<rparr>"
  have ex: "exhausted_store = \<lparr>commands = [?c], devices = [], alerts = [], nextId = 2\<rparr>"
    by (simp add: exhausted_store_def retry4_store_def handler_defs example_defs)
  have f: "findOne (\<lambda>c. cid c = 1 \<and> parentId c = 7 \<and> status c = Failed) (commands exhausted_store)
             = Some ?c"
    by (simp add: ex example_defs)
  have h: "findOne (\<lambda>c. cid c = 1 \<and> parentId c = 7 \<and> status c = Failed) (commands exhausted_store)
             = Some ?c \<and> deviceId ?c \<noteq> [] \<and> (\<forall>x\<in>set (commands exhausted_store). cid x < nextId exhausted_store)"
    using f by (simp add: ex example_defs)
  from C8_retry_creates_fresh_clone [of 1 7 exhausted_store ?c 9000] h
  obtain n where n: "retryCommand 7 1 9000 exhausted_store
             = (Ok n, exhausted_store\<lparr>commands := commands exhausted_store @ [n], nextId := nextId exhausted_store + 1\<rparr>)"
     "retryCount n = 0" "status n = Pending" "ctype n = ctype ?c" "command n = command ?c"
     "priority n = priority ?c" "deviceId n = deviceId ?c" "parentId n = parentId ?c"
    by blast
  have "cid n = 2" using n(1) by (auto simp add: retryCommand_def Command_create_def Let_def ex example_defs split: if_splits)
  with n have a: "\<exists>n. retryCommand 7 1 9000 exhausted_store
             = (Ok n, exhausted_store\<lparr>commands := commands exhausted_store @ [n], nextId := 3\<rparr>)
          \<and> cid n = 2 \<and> retryCount n = 0 \<and> status n = Pending \<and> ctype n = Lock_device
          \<and> command n = [] \<and> priority n = Normal \<and> deviceId n = ''dev1'' \<and> parentId n = 7"
    by (intro exI[of _ n]) (simp add: ex example_defs)
  have b: "retryCommand 8 1 9000 exhausted_store = (NotFound, exhausted_store)"
    using C8_retry_creates_fresh_clone [of 1 8 exhausted_store ?c 9000]
    by (simp add: ex example_defs)
  have c: "retryCommand 7 1 9000 sent_store = (NotFound, sent_store)"
    using C8_retry_creates_fresh_clone [of 1 7 sent_store ?c 9000]
    by (simp add: example_defs)
  show ?thesis using f a b c by blast
qed

section \<open>Status values and the default expiry\<close>

lemma status_enum_all: "set status_enum = UNIV"
proof -
  have "\<And>x. x \<in> set status_enum"
  proof -
    fix x show "x \<in> set status_enum" by (cases x) (simp_all add: status_enum_def)
  qed
  then show ?thesis by blast
qed

text \<open>
  C9 as stated speaks of nine status values. The schema enumerates seven: pending, sent,
  delivered, executing, completed, failed and expired; they are distinct and there is no
  other status.
\<close>

theorem C9_status_enum_is_not_nine:
  "distinct status_enum \<and> set status_enum = UNIV \<and> length status_enum = 7
   \<and> card (set status_enum) \<noteq> 9"
proof -
  have d: "distinct status_enum" by (simp add: status_enum_def)
  have l: "length status_enum = 7" by (simp add: status_enum_def)
  have "card (set status_enum) = 7" using distinct_card[OF d] l by simp
  then show ?thesis using d l status_enum_all by simp
qed

text \<open>
  C9, amended. The status of a command is one of the seven values the schema enumerates.
  \<open>expiresAt\<close> is set when a command is first saved: the pre-save hook gives a command
  without \<open>expiresAt\<close> 168 hours from \<open>now\<close> when its priority is critical and 24 hours
  otherwise (so 24 hours for normal priority), and leaves a command that has one alone;
  the command that \<open>Command.create\<close> stores has it set to that default; and once every
  stored command has \<open>expiresAt\<close> set, this stays so along every run.
\<close>

theorem C9_status_enum_and_default_expiry:
  "status c \<in> set status_enum \<and> distinct status_enum \<and> length status_enum = 7
   \<and> (expiresAt c = None \<longrightarrow>
        expiresAt (pre_save now c)
          = Some (now + (if priority c = Critical then 168 else 24) * 60 * 60 * 1000))
   \<and> (expiresAt c \<noteq> None \<longrightarrow> pre_save now c = c)
   \<and> (Command_create dev par ty cmd prio now s = Inr (c', s') \<longrightarrow>
        c' \<in> set (commands s') \<and> status c' \<in> set status_enum
        \<and> expiresAt c'
          = Some (now + (if prio = Critical then 168 else 24) * 60 * 60 * 1000))
   \<and> ((\<forall>x\<in>set (commands st). expiresAt x \<noteq> None)
        \<longrightarrow> (\<forall>x\<in>set (commands (run rs st)). expiresAt x \<noteq> None))"
proof (intro conjI impI)
  show "status c \<in> set status_enum" using status_enum_all by simp
  show "distinct status_enum" "length status_enum = 7" by (simp_all add: status_enum_def)
next
  assume "expiresAt c = None"
  then show "expiresAt (pre_save now c)
          = Some (now + (if priority c = Critical then 168 else 24) * 60 * 60 * 1000)"
    by (simp add: pre_save_def Let_def)
next
  assume "expiresAt c \<noteq> None"
  then show "pre_save now c = c" by (auto simp: pre_save_def)
next
  assume a: "Command_create dev par ty cmd prio now s = Inr (c', s')"
  then have c': "c' = pre_save now (new_command (nextId s) dev par ty cmd prio now)"
    and s': "commands s' = commands s @ [c']"
    by (auto simp: Command_create_def Let_def split: if_splits)
  show "c' \<in> set (commands s')" using s' by simp
  show "status c' \<in> set status_enum" using status_enum_all by simp
  show "expiresAt c' = Some (now + (if prio = Critical then 168 else 24) * 60 * 60 * 1000)"
    unfolding c' by (simp add: pre_save_def new_command_def Let_def)
next
  assume inv: "\<forall>x\<in>set (commands st). expiresAt x \<noteq> None"
  have "(\<forall>x\<in>set (commands (run rs st)). expiresAt x \<noteq> None) \<and> 0 \<le> nextId (run rs st)"
  proof (rule run_preserves[OF inv])
    fix s :: Store and dev t assume "\<forall>x\<in>set (commands s). expiresAt x \<noteq> None"
    then show "\<forall>x\<in>set (commands (snd (getPendingCommands dev t s))). expiresAt x \<noteq> None"
      using getPendingCommands_preserves[of s "\<lambda>x. expiresAt x \<noteq> None" dev t] by simp
  qed (simp_all add: pre_save_def markAsFailed_doc_def new_command_def Let_def split: option.splits)
  then show "\<forall>x\<in>set (commands (run rs st)). expiresAt x \<noteq> None" by simp
qed

theorem C9_status_enum_and_default_expiry_witness:
  "expiresAt (pre_save 1000 (new_command 5 ''dev1'' 7 Lock_device [] Normal 1000)) = Some 86401000
   \<and> expiresAt (pre_save 1000 (new_command 5 ''dev1'' 7 Lock_device [] Critical 1000))
       = Some 604801000
   \<and> pre_save 5000 (example_command 1 High 1000) = example_command 1 High 1000
   \<and> (\<exists>c' s'. Command_create ''dev1'' 7 Lock_device [] Critical 1000 sent_store = Inr (c', s')
         \<and> c' \<in> set (commands s') \<and> expiresAt c' = Some 604801000)
   \<and> None \<notin> expiresAt ` set (commands presence_store)
   \<and> None \<notin> expiresAt ` set (commands (run expiry_run presence_store))"
proof -
  have a: "expiresAt (pre_save 1000 (new_command 5 ''dev1'' 7 Lock_device [] Normal 1000))
             = Some 86401000"
    using C9_status_enum_and_default_expiry
            [of "new_command 5 ''dev1'' 7 Lock_device [] Normal 1000" 1000]
    by (simp add: new_command_def)
  have b: "expiresAt (pre_save 1000 (new_command 5 ''dev1'' 7 Lock_device [] Critical 1000))
             = Some 604801000"
    using C9_status_enum_and_default_expiry
            [of "new_command 5 ''dev1'' 7 Lock_device [] Critical 1000" 1000]
    by (simp add: new_command_def)
  have c: "pre_save 5000 (example_command 1 High 1000) = example_command 1 High 1000"
    using C9_status_enum_and_default_expiry [of "example_command 1 High 1000" 5000]
    by (simp add: example_defs)
  have cr: "Command_create ''dev1'' 7 Lock_device [] Critical 1000 sent_store
          = Inr (fst (projr (Command_create ''dev1'' 7 Lock_device [] Critical 1000 sent_store)),
                 snd (projr (Command_create ''dev1'' 7 Lock_device [] Critical 1000 sent_store)))"
    by (simp add: Command_create_def Let_def)
  have d: "\<exists>c' s'. Command_create ''dev1'' 7 Lock_device [] Critical 1000 sent_store = Inr (c', s')
         \<and> c' \<in> set (commands s') \<and> expiresAt c' = Some 604801000"
  proof -
    let ?c = "fst (projr (Command_create ''dev1'' 7 Lock_device [] Critical 1000 sent_store))"
    let ?s = "snd (projr (Command_create ''dev1'' 7 Lock_device [] Critical 1000 sent_store))"
    from C9_status_enum_and_default_expiry
            [where dev = "''dev1''" and par = 7 and ty = Lock_device and cmd = "[]"
               and prio = Critical and now = 1000 and s = sent_store
               and c' = ?c and s' = ?s] cr
    have "?c \<in> set (commands ?s)"
      "expiresAt ?c = Some (1000 + (if Critical = Critical then 168 else 24) * 60 * 60 * 1000)"
      by blast+
    then have "?c \<in> set (commands ?s) \<and> expiresAt ?c = Some 604801000" by simp
    with cr show ?thesis by blast
  qed
  have e: "None \<notin> expiresAt ` set (commands presence_store)"
    by (simp add: presence_store_def example_defs)
  then have "\<forall>x\<in>set (commands presence_store). expiresAt x \<noteq> None"
    by (metis imageI)
  with C9_status_enum_and_default_expiry [where st = presence_store and rs = expiry_run]
  have "\<forall>x\<in>set (commands (run expiry_run presence_store)). expiresAt x \<noteq> None"
    by blast
  then have f: "None \<notin> expiresAt ` set (commands (run expiry_run presence_store))"
    by (metis imageE)
  show ?thesis using a b c d e f by blast
qed

section \<open>Heartbeat\<close>

lemma digits_length: "n < 1000 \<Longrightarrow> length (digits n) \<le> 3"
  by (simp add: digits.simps[of n] digits.simps[of "n div 10"] digits.simps[of "n div 10 div 10"])

lemma pending_filter_iff:
  "pending_filter dev now c
     = (deviceId c = dev \<and> (status c = Pending \<or> status c = Sent)
        \<and> (\<exists>e. expiresAt c = Some e \<and> now < e))"
  by (cases "expiresAt c") (auto simp: pending_filter_def)

lemma receiveHeartbeat_reply:
  assumes "receiveHeartbeat dev b ch od now s = (Ok r, s')"
  shows "pendingCommands r = map heartbeat_summary (filter (pending_filter dev now) (commands s'))
         \<and> requiresAction r = (filter (pending_filter dev now) (commands s') \<noteq> [])"
  using assms
  by (auto simp: receiveHeartbeat_def Let_def split: option.splits sum.splits if_splits)

lemma low_battery_alert_created:
  assumes "0 \<le> b" "b \<le> 100" "dev \<noteq> []"
  shows "\<exists>s2. Alert_create dev (Some p) Low_battery
            (''Low battery alert: '' @ string_of_int b @ ''% remaining'') sev now s = Inr s2"
proof -
  have "nat b < 1000" using assms by linarith
  then have "length (digits (nat b)) \<le> 3" by (rule digits_length)
  then show ?thesis using assms by (simp add: Alert_create_def string_of_int_def)
qed

lemma Device_save_valid:
  "device_valid (assign device) \<Longrightarrow> \<exists>s1. Device_save now assign device s = Inr s1"
  by (cases "assign device = device") (simp_all add: Device_save_def)

lemma heartbeat_valid_iff:
  "device_valid (d\<lparr>d_lastHeartbeat := Some now, d_isOnline := True,
                   d_batteryLevel := b, d_isCharging := ch\<rparr>)
     = device_valid (d\<lparr>d_batteryLevel := b\<rparr>)"
  by (simp add: device_valid_def)

text \<open>
  C10. A heartbeat leaves the command collection exactly as it was, on every path
  (unknown device, rejected save, success): no status, \<open>nextRetryAt\<close> or other field of
  any command changes. When it succeeds, its answer lists, in collection order, the id,
  type, payload and priority of each command of the device that is pending or sent and
  whose \<open>expiresAt\<close> lies after \<open>now\<close>, and \<open>requiresAction\<close> says whether there is one. The
  answer is NotFound for an unknown device, a server error with nothing written when the
  device document with the reported battery level fails the schema's validation, and a
  success otherwise.
\<close>

theorem C10_heartbeat_leaves_commands:
  "commands (snd (receiveHeartbeat dev batteryLevel isCharging otherData now s)) = commands s
   \<and> (\<forall>r s'. receiveHeartbeat dev batteryLevel isCharging otherData now s = (Ok r, s') \<longrightarrow>
          pendingCommands r
            = map (\<lambda>c. \<lparr>hs_id = cid c, hs_type = ctype c, hs_command = command c,
                         hs_priority = priority c\<rparr>)
                (filter (\<lambda>c. deviceId c = dev \<and> (status c = Pending \<or> status c = Sent)
                              \<and> (\<exists>e. expiresAt c = Some e \<and> now < e))
                   (commands s))
        \<and> requiresAction r
            = (\<exists>c\<in>set (commands s). deviceId c = dev \<and> (status c = Pending \<or> status c = Sent)
                                     \<and> (\<exists>e. expiresAt c = Some e \<and> now < e)))
   \<and> (findOne (\<lambda>d. d_deviceId d = dev) (devices s) = None \<longrightarrow>
        receiveHeartbeat dev batteryLevel isCharging otherData now s = (NotFound, s))
   \<and> (findOne (\<lambda>d. d_deviceId d = dev) (devices s) = Some device
        \<and> \<not> device_valid (device\<lparr>d_batteryLevel := batteryLevel\<rparr>) \<longrightarrow>
        receiveHeartbeat dev batteryLevel isCharging otherData now s = (ServerError, s))
   \<and> (findOne (\<lambda>d. d_deviceId d = dev) (devices s) = Some device
        \<and> device_valid (device\<lparr>d_batteryLevel := batteryLevel\<rparr>) \<longrightarrow>
        (\<exists>r s'. receiveHeartbeat dev batteryLevel isCharging otherData now s = (Ok r, s')))"
proof (intro conjI allI impI)
  show "commands (snd (receiveHeartbeat dev batteryLevel isCharging otherData now s)) = commands s"
    using receiveHeartbeat_frame by simp
next
  fix r s'
  assume a: "receiveHeartbeat dev batteryLevel isCharging otherData now s = (Ok r, s')"
  have fr: "commands s' = commands s"
    using receiveHeartbeat_frame[of dev batteryLevel isCharging otherData now s] a by simp
  note rp = receiveHeartbeat_reply[OF a, unfolded fr]
  have flt: "filter (pending_filter dev now) (commands s)
      = filter (\<lambda>c. deviceId c = dev \<and> (status c = Pending \<or> status c = Sent)
                     \<and> (\<exists>e. expiresAt c = Some e \<and> now < e)) (commands s)"
    by (rule filter_cong[OF refl]) (simp add: pending_filter_iff)
  show "pendingCommands r
            = map (\<lambda>c. \<lparr>hs_id = cid c, hs_type = ctype c, hs_command = command c,
                         hs_priority = priority c\<rparr>)
                (filter (\<lambda>c. deviceId c = dev \<and> (status c = Pending \<or> status c = Sent)
                              \<and> (\<exists>e. expiresAt c = Some e \<and> now < e))
                   (commands s))"
    using rp unfolding flt by (simp add: heartbeat_summary_def)
  show "requiresAction r
            = (\<exists>c\<in>set (commands s). deviceId c = dev \<and> (status c = Pending \<or> status c = Sent)
                                     \<and> (\<exists>e. expiresAt c = Some e \<and> now < e))"
    using rp unfolding flt by (simp add: filter_empty_conv)
next
  assume "findOne (\<lambda>d. d_deviceId d = dev) (devices s) = None"
  then show "receiveHeartbeat dev batteryLevel isCharging otherData now s = (NotFound, s)"
    by (simp add: receiveHeartbeat_def)
next
  assume a: "findOne (\<lambda>d. d_deviceId d = dev) (devices s) = Some device
        \<and> \<not> device_valid (device\<lparr>d_batteryLevel := batteryLevel\<rparr>)"
  then have "updateHeartbeat batteryLevel isCharging now device s = Inl ValidationError"
    by (simp add: updateHeartbeat_def Device_save_def heartbeat_valid_iff)
  then show "receiveHeartbeat dev batteryLevel isCharging otherData now s = (ServerError, s)"
    using a by (simp add: receiveHeartbeat_def)
next
  assume a: "findOne (\<lambda>d. d_deviceId d = dev) (devices s) = Some device
        \<and> device_valid (device\<lparr>d_batteryLevel := batteryLevel\<rparr>)"
  then have f: "findOne (\<lambda>d. d_deviceId d = dev) (devices s) = Some device"
    and v: "device_valid (device\<lparr>d_batteryLevel := batteryLevel\<rparr>)" by simp_all
  from findOne_SomeD[OF f] have dv: "d_deviceId device = dev" by simp
  from v obtain p where p: "d_parentId device = Some p" and b: "0 \<le> batteryLevel" "batteryLevel \<le> 100"
    and ne: "dev \<noteq> []"
    using dv by (auto simp: device_valid_def)
  have "device_valid (device\<lparr>d_lastHeartbeat := Some now, d_isOnline := True,
                   d_batteryLevel := batteryLevel, d_isCharging := isCharging\<rparr>)"
    using v by (simp add: heartbeat_valid_iff)
  from Device_save_valid[of "\<lambda>d. d\<lparr>d_lastHeartbeat := Some now, d_isOnline := True,
                   d_batteryLevel := batteryLevel, d_isCharging := isCharging\<rparr>" device now s, OF this]
  obtain s1 where s1: "updateHeartbeat batteryLevel isCharging now device s = Inr s1"
    unfolding updateHeartbeat_def by blast
  define s2 where "s2 = (if length otherData > 0
                          then s1\<lparr>devices :=
                                 updateOne (\<lambda>d. d_id d = d_id device)
                                   (\<lambda>d. (foldl apply_field d otherData)
                                          \<lparr>d_lastHeartbeat := Some now, d_updatedAt := now\<rparr>)
                                   (devices s1)\<rparr>
                          else s1)"
  obtain s3 where s3: "(if batteryLevel \<le> d_maxBatteryAlert device \<and> \<not> isCharging
                         then Alert_create dev (d_parentId device) Low_battery
                                (''Low battery alert: '' @ string_of_int batteryLevel
                                   @ ''% remaining'')
                                (if batteryLevel \<le> 10 then Sev_critical else Sev_medium) now s2
                         else Inr s2) = Inr s3"
    using low_battery_alert_created[OF b ne, of p _ now s2] unfolding p by (cases "batteryLevel \<le> d_maxBatteryAlert device \<and> \<not> isCharging") auto
  show "\<exists>r s'. receiveHeartbeat dev batteryLevel isCharging otherData now s = (Ok r, s')"
    unfolding receiveHeartbeat_def Let_def f option.case s1 sum.case s2_def[symmetric] s3
    by simp
qed

theorem C10_heartbeat_leaves_commands_witness:
  "receiveHeartbeat ''dev1'' 15 False [] 5000 presence_store
     = (Ok \<lparr>requiresAction = True,
            pendingCommands =
              [\<lparr>hs_id = 1, hs_type = Lock_device, hs_command = [], hs_priority = High\<rparr>,
               \<lparr>hs_id = 2, hs_type = Lock_device, hs_command = [], hs_priority = Critical\<rparr>,
               \<lparr>hs_id = 3, hs_type = Lock_device, hs_command = [], hs_priority = High\<rparr>]\<rparr>,
        snd (receiveHeartbeat ''dev1'' 15 False [] 5000 presence_store))
   \<and> commands (snd (receiveHeartbeat ''dev1'' 15 False [] 5000 presence_store))
       = commands presence_store
   \<and> map status (commands (snd (receiveHeartbeat ''dev1'' 15 False [] 5000 presence_store)))
       = [Pending, Pending, Pending]
   \<and> receiveHeartbeat ''dev9'' 15 False [] 5000 presence_store = (NotFound, presence_store)
   \<and> receiveHeartbeat ''dev1'' 50 False [] 3000 unvalidated_store
       = (ServerError, unvalidated_store)"
proof -
  let ?d = "example_device 10 ''dev1'' True (Some 0)"
  have f: "findOne (\<lambda>d. d_deviceId d = ''dev1'') (devices presence_store) = Some ?d"
    by (simp add: presence_store_def example_device_def)
  have v: "device_valid (?d\<lparr>d_batteryLevel := 15\<rparr>)"
    by (simp add: device_valid_def example_device_def)
  note inst = C10_heartbeat_leaves_commands
                [of "''dev1''" 15 False "[]" 5000 presence_store ?d]
  from inst f v obtain r s' where
    r: "receiveHeartbeat ''dev1'' 15 False [] 5000 presence_store = (Ok r, s')"
    by blast
  with inst have pc: "pendingCommands r
            = map (\<lambda>c. \<lparr>hs_id = cid c, hs_type = ctype c, hs_command = command c,
                         hs_priority = priority c\<rparr>)
                (filter (\<lambda>c. deviceId c = ''dev1'' \<and> (status c = Pending \<or> status c = Sent)
                              \<and> (\<exists>e. expiresAt c = Some e \<and> 5000 < e))
                   (commands presence_store))"
    and ra: "requiresAction r
            = (\<exists>c\<in>set (commands presence_store). deviceId c = ''dev1''
                 \<and> (status c = Pending \<or> status c = Sent)
                 \<and> (\<exists>e. expiresAt c = Some e \<and> 5000 < e))"
    by blast+
  have "r = \<lparr>requiresAction = True,
            pendingCommands =
              [\<lparr>hs_id = 1, hs_type = Lock_device, hs_command = [], hs_priority = High\<rparr>,
               \<lparr>hs_id = 2, hs_type = Lock_device, hs_command = [], hs_priority = Critical\<rparr>,
               \<lparr>hs_id = 3, hs_type = Lock_device, hs_command = [], hs_priority = High\<rparr>]\<rparr>"
    using pc ra by (cases r) (simp add: presence_store_def example_defs)
  with r have a: "receiveHeartbeat ''dev1'' 15 False [] 5000 presence_store
     = (Ok \<lparr>requiresAction = True,
            pendingCommands =
              [\<lparr>hs_id = 1, hs_type = Lock_device, hs_command = [], hs_priority = High\<rparr>,
               \<lparr>hs_id = 2, hs_type = Lock_device, hs_command = [], hs_priority = Critical\<rparr>,
               \<lparr>hs_id = 3, hs_type = Lock_device, hs_command = [], hs_priority = High\<rparr>]\<rparr>,
        snd (receiveHeartbeat ''dev1'' 15 False [] 5000 presence_store))"
    by simp
  from inst have b: "commands (snd (receiveHeartbeat ''dev1'' 15 False [] 5000 presence_store))
       = commands presence_store"
    by blast
  then have c: "map status (commands (snd (receiveHeartbeat ''dev1'' 15 False [] 5000 presence_store)))
       = [Pending, Pending, Pending]"
    by (simp add: presence_store_def example_defs)
  have "findOne (\<lambda>d. d_deviceId d = ''dev9'') (devices presence_store) = None"
    by (simp add: presence_store_def example_device_def)
  with C10_heartbeat_leaves_commands [of "''dev9''" 15 False "[]" 5000 presence_store ?d]
  have d: "receiveHeartbeat ''dev9'' 15 False [] 5000 presence_store = (NotFound, presence_store)"
    by blast
  let ?u = "(example_device 10 ''dev1'' True (Some 0))
              \<lparr>d_lastHeartbeat := Some 1000, d_networkType := ''5g'', d_updatedAt := 1000\<rparr>"
  have fu: "findOne (\<lambda>d. d_deviceId d = ''dev1'') (devices unvalidated_store) = Some ?u"
    by (simp add: unvalidated_store_def presence_store_def example_device_def
        receiveHeartbeat_def updateHeartbeat_def Device_save_def device_valid_def Let_def)
  have nv: "\<not> device_valid (?u\<lparr>d_batteryLevel := 50\<rparr>)"
    by (simp add: device_valid_def example_device_def)
  from C10_heartbeat_leaves_commands [of "''dev1''" 50 False "[]" 3000 unvalidated_store ?u] fu nv
  have e: "receiveHeartbeat ''dev1'' 50 False [] 3000 unvalidated_store
       = (ServerError, unvalidated_store)"
    by blast
  show ?thesis using a b c d e by blast
qed

section \<open>The offline-device job\<close>

text \<open>
  C7. The claim asks that a tick of the job marks every device offline that is online
  and silent for longer than the threshold, with one \<open>device_offline\<close> alert for each.
  At time 1000 the device \<open>dev1\<close> of \<open>presence_store\<close> sends a heartbeat that reports the
  network type \<open>5g\<close>; the heartbeat is accepted and the value is stored without
  validation. At time 2000000 both \<open>dev1\<close> and \<open>dev2\<close> are online and silent for longer
  than the threshold. The tick saves \<open>dev1\<close> first; the save validates the stored network
  type, is rejected, and ends the tick: no device is marked offline and no alert is
  stored, on this tick and on the later ones. Without that heartbeat the same tick marks
  both devices offline and stores one alert for each.
\<close>

theorem C7_unvalidated_device_blocks_offline_job:
  "(case fst (receiveHeartbeat ''dev1'' 80 False [F_networkType ''5g''] 1000 presence_store) of
      Ok r \<Rightarrow> True | _ \<Rightarrow> False)
   \<and> map (\<lambda>d. (d_deviceId d, d_isOnline d, d_lastHeartbeat d, d_networkType d))
         (devices unvalidated_store)
       = [(''dev1'', True, Some 1000, ''5g''), (''dev2'', True, Some 1000000, ''unknown''),
          (''dev3'', False, Some 0, ''unknown''), (''dev4'', True, None, ''unknown'')]
   \<and> alerts unvalidated_store = []
   \<and> map (offline_filter (2000000 - offlineThreshold)) (devices unvalidated_store)
       = [True, True, False, False]
   \<and> detectOfflineDevices 2000000 unvalidated_store = unvalidated_store
   \<and> run (map (Pair OfflineJob) [2000000, 2300000, 2600000]) unvalidated_store
       = unvalidated_store
   \<and> map (\<lambda>d. (d_deviceId d, d_isOnline d)) (devices (detectOfflineDevices 2000000 presence_store))
       = [(''dev1'', False), (''dev2'', False), (''dev3'', False), (''dev4'', True)]
   \<and> map (\<lambda>a. (a_deviceId a, a_type a)) (alerts (detectOfflineDevices 2000000 presence_store))
       = [(''dev1'', Device_offline), (''dev2'', Device_offline)]"
proof -
  have u: "unvalidated_store =
     presence_store\<lparr>devices :=
       [(example_device 10 ''dev1'' True (Some 0))
          \<lparr>d_lastHeartbeat := Some 1000, d_networkType := ''5g'', d_updatedAt := 1000\<rparr>,
        example_device 11 ''dev2'' True (Some 1000000),
        example_device 12 ''dev3'' False (Some 0),
        example_device 13 ''dev4'' True None]\<rparr>"
    by (simp add: unvalidated_store_def presence_store_def example_device_def
        receiveHeartbeat_def updateHeartbeat_def Device_save_def device_valid_def Let_def)
  have ok: "(case fst (receiveHeartbeat ''dev1'' 80 False [F_networkType ''5g''] 1000 presence_store) of
      Ok r \<Rightarrow> True | _ \<Rightarrow> False)"
    by (simp add: presence_store_def example_device_def
        receiveHeartbeat_def updateHeartbeat_def Device_save_def device_valid_def Let_def)
  have tick: "\<And>t. 1100000 < t \<Longrightarrow> detectOfflineDevices t unvalidated_store = unvalidated_store"
    by (simp add: u detectOfflineDevices_def Let_def offline_filter_def offlineThreshold_def
        presence_store_def example_device_def Device_save_def device_valid_def)
  have a: "detectOfflineDevices 2000000 unvalidated_store = unvalidated_store"
    by (rule tick) simp
  have b: "run (map (Pair OfflineJob) [2000000, 2300000, 2600000]) unvalidated_store
       = unvalidated_store"
    by (simp add: tick)
  have c: "map (\<lambda>d. (d_deviceId d, d_isOnline d, d_lastHeartbeat d, d_networkType d))
         (devices unvalidated_store)
       = [(''dev1'', True, Some 1000, ''5g''), (''dev2'', True, Some 1000000, ''unknown''),
          (''dev3'', False, Some 0, ''unknown''), (''dev4'', True, None, ''unknown'')]"
    "alerts unvalidated_store = []"
    "map (offline_filter (2000000 - offlineThreshold)) (devices unvalidated_store)
       = [True, True, False, False]"
    by (simp_all add: u presence_store_def example_device_def offline_filter_def offlineThreshold_def)
  have d: "map (\<lambda>d. (d_deviceId d, d_isOnline d)) (devices (detectOfflineDevices 2000000 presence_store))
       = [(''dev1'', False), (''dev2'', False), (''dev3'', False), (''dev4'', True)]"
    "map (\<lambda>a. (a_deviceId a, a_type a)) (alerts (detectOfflineDevices 2000000 presence_store))
       = [(''dev1'', Device_offline), (''dev2'', Device_offline)]"
    by (simp_all add: detectOfflineDevices_def Let_def offline_filter_def offlineThreshold_def
        presence_store_def example_device_def Device_save_def device_valid_def Alert_create_def
        offline_message_def)
  show ?thesis using ok a b c d by simp
qed

end
